theory Spec2Isabelle
  imports Complex_Main "HOL-Library.Word" "HOL-Library.Log_Nat"
begin

section \<open>The contract AvocadoTraceContract\<close>

text \<open>
  The contract is written for Solidity 0.8 (\<^verbatim>\<open>pragma solidity ^0.8.0\<close>): every
  \<^verbatim>\<open>uint256\<close> is a 256-bit word, and \<^verbatim>\<open>+\<close>, \<^verbatim>\<open>-\<close>, \<^verbatim>\<open>*\<close> are checked, so an
  operation that leaves the range aborts the call with \<^verbatim>\<open>Panic(0x11)\<close> and a failed
  \<^verbatim>\<open>require\<close> aborts it with its message. An aborted call leaves the state as it
  was; a call is therefore a function from the state to \<open>error + contract\<close>.
\<close>

type_synonym uint256 = "256 word"
type_synonym address = "160 word"

datatype error = Revert string | Panic nat

record AuditResult =
  isCompliant :: bool
  reason :: string
  timestamp :: uint256

record BatchData =
  loteId :: string
  variety :: string
  registeredBy :: address
  initialWeight :: uint256
  finalWeightReceived :: uint256
  avgTemperature :: uint256
  audit :: AuditResult

datatype event =
    ThresholdsUpdated address uint256 uint256 uint256
  | BatchRegistered string address
  | BatchAuditCompleted string bool string
  | AssetTransfer string address address uint256

text \<open>
  The storage of the contract. A Solidity \<^verbatim>\<open>mapping\<close> is total: a key never written
  reads as the zero value of the struct, here \<open>zeroBatch\<close>. The log of emitted events
  is kept as a list, latest event last.
\<close>

record contract =
  owner :: address
  MAX_TEMP_TRANSPORT_C :: uint256
  MAX_WEIGHT_DEVIATION_PCT :: uint256
  MIN_DRY_MATTER_PCT :: uint256
  batches :: "string \<Rightarrow> BatchData"
  events :: "event list"

text \<open>What a call sees of its transaction: \<^verbatim>\<open>msg.sender\<close> and \<^verbatim>\<open>block.timestamp\<close>.\<close>

record env =
  msg_sender :: address
  block_timestamp :: uint256

definition zeroAudit :: AuditResult where
  "zeroAudit = \<lparr>isCompliant = False, reason = [], timestamp = 0\<rparr>"

definition zeroBatch :: BatchData where
  "zeroBatch = \<lparr>loteId = [], variety = [], registeredBy = 0, initialWeight = 0,
     finalWeightReceived = 0, avgTemperature = 0, audit = zeroAudit\<rparr>"

definition constructor :: "env \<Rightarrow> uint256 \<Rightarrow> uint256 \<Rightarrow> uint256 \<Rightarrow> contract" where
  "constructor e initialMaxTemp initialMaxWeightDev initialMinDryMatter =
     \<lparr>owner = msg_sender e,
      MAX_TEMP_TRANSPORT_C = initialMaxTemp,
      MAX_WEIGHT_DEVIATION_PCT = initialMaxWeightDev,
      MIN_DRY_MATTER_PCT = initialMinDryMatter,
      batches = (\<lambda>_. zeroBatch),
      events = []\<rparr>"

text \<open>Checked multiplication of Solidity 0.8.\<close>

definition mul_checked :: "uint256 \<Rightarrow> uint256 \<Rightarrow> error + uint256" where
  "mul_checked a b = (if unat a * unat b < 2 ^ 256 then Inr (a * b) else Inl (Panic 17))"

text \<open>The literal reasons. The source strings hold the letter o with acute accent,
  two bytes in UTF-8.\<close>

definition reasonConforme :: string where
  "reasonConforme = ''Lote Conforme. Cumple con todos los SC.''"

definition reasonPendiente :: string where
  "reasonPendiente = ''Pendiente de Auditoria''"

definition reasonTemperatura :: string where
  "reasonTemperatura = ''FALLA: Temperatura promedio excedida. Umbral MAX: ''"

definition reasonPeso :: string where
  "reasonPeso = ''FALLA: Desviaci'' @ [CHR 0xC3, CHR 0xB3] @
     ''n de peso entre etapas excedida. Lote rechazado.''"

definition reasonMateriaSeca :: string where
  "reasonMateriaSeca = ''FALLA: Materia seca final insuficiente. No apto para exportaci'' @
     [CHR 0xC3, CHR 0xB3] @ ''n.''"

text \<open>
  \<^verbatim>\<open>registerBatchInitialData\<close>. The source tests \<^verbatim>\<open>batches[loteId].timestamp\<close>;
  the only timestamp of a \<^verbatim>\<open>BatchData\<close> is the one of its \<^verbatim>\<open>audit\<close>, which is the
  field read here and in the other three guards.
\<close>

definition registerBatchInitialData ::
  "env \<Rightarrow> string \<Rightarrow> string \<Rightarrow> uint256 \<Rightarrow> contract \<Rightarrow> error + contract" where
  "registerBatchInitialData e lote var initWeight s =
     (if timestamp (audit (batches s lote)) \<noteq> 0 then Inl (Revert ''Lote ya registrado.'')
      else Inr (s\<lparr>batches := (batches s)(lote :=
                    \<lparr>loteId = lote, variety = var, registeredBy = msg_sender e,
                     initialWeight = initWeight, finalWeightReceived = 0, avgTemperature = 0,
                     audit = \<lparr>isCompliant = False, reason = reasonPendiente,
                              timestamp = block_timestamp e\<rparr>\<rparr>),
                  events := events s @ [BatchRegistered lote (msg_sender e)]\<rparr>))"

definition updateTransportData ::
  "env \<Rightarrow> string \<Rightarrow> uint256 \<Rightarrow> contract \<Rightarrow> error + contract" where
  "updateTransportData e lote avgTemp s =
     (if timestamp (audit (batches s lote)) = 0 then Inl (Revert ''Lote no encontrado.'')
      else Inr (s\<lparr>batches := (batches s)(lote := (batches s lote)\<lparr>avgTemperature := avgTemp\<rparr>)\<rparr>))"

text \<open>
  The three audits of \<^verbatim>\<open>evaluateBatch\<close>, each taking and returning the pair of the
  locals \<^verbatim>\<open>compliant\<close> and \<^verbatim>\<open>reason\<close>. In the second one the product
  \<^verbatim>\<open>difference * 100 * 100\<close> is computed whenever both weights are positive, the
  product \<^verbatim>\<open>MAX_WEIGHT_DEVIATION_PCT * 100\<close> only when \<^verbatim>\<open>compliant\<close> still holds
  (\<^verbatim>\<open>&&\<close> evaluates its right operand on demand).
\<close>

definition auditTemperature :: "contract \<Rightarrow> uint256 \<Rightarrow> bool \<times> string \<Rightarrow> bool \<times> string" where
  "auditTemperature s avgTemp cr =
     (if avgTemp > MAX_TEMP_TRANSPORT_C s then (False, reasonTemperatura) else cr)"

definition auditWeight ::
  "contract \<Rightarrow> uint256 \<Rightarrow> uint256 \<Rightarrow> bool \<times> string \<Rightarrow> error + bool \<times> string" where
  "auditWeight s initWeight finalWeight cr =
     (if initWeight > 0 \<and> finalWeight > 0 then
        (let difference = (if initWeight > finalWeight then initWeight - finalWeight
                           else finalWeight - initWeight)
         in case mul_checked difference 100 of
              Inl err \<Rightarrow> Inl err
            | Inr d100 \<Rightarrow>
               (case mul_checked d100 100 of
                  Inl err \<Rightarrow> Inl err
                | Inr d10000 \<Rightarrow>
                   (let weightDeviation = d10000 div initWeight
                    in if fst cr then
                         (case mul_checked (MAX_WEIGHT_DEVIATION_PCT s) 100 of
                            Inl err \<Rightarrow> Inl err
                          | Inr limit \<Rightarrow>
                              if weightDeviation > limit then Inr (False, reasonPeso)
                              else Inr cr)
                       else Inr cr)))
      else Inr cr)"

definition auditDryMatter :: "contract \<Rightarrow> uint256 \<Rightarrow> bool \<times> string \<Rightarrow> bool \<times> string" where
  "auditDryMatter s finalDryMatterPct_Input cr =
     (if fst cr \<and> finalDryMatterPct_Input > 0
         \<and> finalDryMatterPct_Input < MIN_DRY_MATTER_PCT s
      then (False, reasonMateriaSeca) else cr)"

text \<open>The values the audit works on: an input of zero stands for the stored value.\<close>

definition resolvedTemp :: "contract \<Rightarrow> string \<Rightarrow> uint256 \<Rightarrow> uint256" where
  "resolvedTemp s lote avgTemperatureC_Input =
     (if avgTemperatureC_Input \<noteq> 0 then avgTemperatureC_Input
      else avgTemperature (batches s lote))"

definition resolvedFinalWeight :: "contract \<Rightarrow> string \<Rightarrow> uint256 \<Rightarrow> uint256" where
  "resolvedFinalWeight s lote finalWeightReceived_Input =
     (if finalWeightReceived_Input \<noteq> 0 then finalWeightReceived_Input
      else finalWeightReceived (batches s lote))"

text \<open>
  \<^verbatim>\<open>evaluateBatch\<close> in two parts: \<open>runAudits\<close> is the body up to the third audit
  and yields the final values of \<^verbatim>\<open>compliant\<close> and \<^verbatim>\<open>reason\<close>; \<open>storeAudit\<close> is
  the assignment to \<^verbatim>\<open>batch.audit\<close> and the event that end the function. There is
  no \<^verbatim>\<open>require\<close> in it.
\<close>

definition runAudits ::
  "contract \<Rightarrow> string \<Rightarrow> uint256 \<Rightarrow> uint256 \<Rightarrow> uint256 \<Rightarrow> error + bool \<times> string" where
  "runAudits s lote avgTemperatureC_Input finalWeightReceived_Input finalDryMatterPct_Input =
     (let batch = batches s lote;
          avgTemp = resolvedTemp s lote avgTemperatureC_Input;
          initWeight = initialWeight batch;
          finalWeight = resolvedFinalWeight s lote finalWeightReceived_Input;
          cr1 = auditTemperature s avgTemp (True, reasonConforme)
      in case auditWeight s initWeight finalWeight cr1 of
           Inl err \<Rightarrow> Inl err
         | Inr cr2 \<Rightarrow> Inr (auditDryMatter s finalDryMatterPct_Input cr2))"

definition storeAudit :: "env \<Rightarrow> string \<Rightarrow> bool \<times> string \<Rightarrow> contract \<Rightarrow> contract" where
  "storeAudit e lote cr s =
     s\<lparr>batches := (batches s)(lote := (batches s lote)\<lparr>audit :=
           \<lparr>isCompliant = fst cr, reason = snd cr, timestamp = block_timestamp e\<rparr>\<rparr>),
       events := events s @ [BatchAuditCompleted lote (fst cr) (snd cr)]\<rparr>"

definition evaluateBatch ::
  "env \<Rightarrow> string \<Rightarrow> uint256 \<Rightarrow> uint256 \<Rightarrow> uint256 \<Rightarrow> contract \<Rightarrow> error + contract" where
  "evaluateBatch e lote avgTemperatureC_Input finalWeightReceived_Input finalDryMatterPct_Input s =
     (case runAudits s lote avgTemperatureC_Input finalWeightReceived_Input
             finalDryMatterPct_Input of
        Inl err \<Rightarrow> Inl err
      | Inr cr \<Rightarrow> Inr (storeAudit e lote cr s))"

definition updateReceptionData ::
  "env \<Rightarrow> string \<Rightarrow> uint256 \<Rightarrow> contract \<Rightarrow> error + contract" where
  "updateReceptionData e lote finalWeight s =
     (if timestamp (audit (batches s lote)) = 0 then Inl (Revert ''Lote no encontrado.'')
      else evaluateBatch e lote 0 finalWeight 0
             (s\<lparr>batches := (batches s)(lote := (batches s lote)\<lparr>finalWeightReceived := finalWeight\<rparr>)\<rparr>))"

definition setThresholds ::
  "env \<Rightarrow> uint256 \<Rightarrow> uint256 \<Rightarrow> uint256 \<Rightarrow> contract \<Rightarrow> error + contract" where
  "setThresholds e newMaxTemp newMaxWeightDev newMinDryMatter s =
     (if msg_sender e \<noteq> owner s
      then Inl (Revert ''Acceso denegado: Solo el administrador puede ejecutar esta funcion.'')
      else Inr (s\<lparr>MAX_TEMP_TRANSPORT_C := newMaxTemp,
                  MAX_WEIGHT_DEVIATION_PCT := newMaxWeightDev,
                  MIN_DRY_MATTER_PCT := newMinDryMatter,
                  events := events s @
                    [ThresholdsUpdated (msg_sender e) newMaxTemp newMaxWeightDev newMinDryMatter]\<rparr>))"

definition transferAsset ::
  "env \<Rightarrow> string \<Rightarrow> address \<Rightarrow> uint256 \<Rightarrow> contract \<Rightarrow> error + contract" where
  "transferAsset e lote newOwner amountUSD s =
     (if timestamp (audit (batches s lote)) = 0 then Inl (Revert ''Lote no encontrado.'')
      else Inr (s\<lparr>events := events s @ [AssetTransfer lote (msg_sender e) newOwner amountUSD]\<rparr>))"

text \<open>
  Transactions. A call that aborts is rolled back: the state stays as it was.
\<close>

datatype call =
    RegisterBatchInitialData string string uint256
  | UpdateTransportData string uint256
  | UpdateReceptionData string uint256
  | EvaluateBatch string uint256 uint256 uint256
  | SetThresholds uint256 uint256 uint256
  | TransferAsset string address uint256

fun exec :: "env \<Rightarrow> call \<Rightarrow> contract \<Rightarrow> error + contract" where
  "exec e (RegisterBatchInitialData lote var w) s = registerBatchInitialData e lote var w s"
| "exec e (UpdateTransportData lote t) s = updateTransportData e lote t s"
| "exec e (UpdateReceptionData lote w) s = updateReceptionData e lote w s"
| "exec e (EvaluateBatch lote t w d) s = evaluateBatch e lote t w d s"
| "exec e (SetThresholds t w d) s = setThresholds e t w d s"
| "exec e (TransferAsset lote a usd) s = transferAsset e lote a usd s"

fun run :: "(env \<times> call) list \<Rightarrow> contract \<Rightarrow> contract" where
  "run [] s = s"
| "run ((e, c) # cs) s = run cs (case exec e c s of Inl _ \<Rightarrow> s | Inr s' \<Rightarrow> s')"

text \<open>
  The quantities the audit of the weight is specified with: the deviation in percent as
  a rational number, its truncation to two decimals, and the condition under which the
  products \<^verbatim>\<open>difference * 100 * 100\<close> and \<^verbatim>\<open>MAX_WEIGHT_DEVIATION_PCT * 100\<close> stay
  within 256 bits.
\<close>

definition deviationPct :: "uint256 \<Rightarrow> uint256 \<Rightarrow> rat" where
  "deviationPct initWeight finalWeight =
     \<bar>of_nat (unat initWeight) - of_nat (unat finalWeight)\<bar> / of_nat (unat initWeight) * 100"

definition fixed2 :: "rat \<Rightarrow> rat" where
  "fixed2 x = of_int \<lfloor>x * 100\<rfloor> / 100"

definition absDifference :: "uint256 \<Rightarrow> uint256 \<Rightarrow> uint256" where
  "absDifference a b = (if a > b then a - b else b - a)"

definition deviationFits :: "uint256 \<Rightarrow> uint256 \<Rightarrow> bool" where
  "deviationFits initWeight finalWeight \<longleftrightarrow>
     initWeight = 0 \<or> finalWeight = 0
     \<or> unat (absDifference initWeight finalWeight) * 10000 < 2 ^ 256"

definition limitFits :: "contract \<Rightarrow> bool" where
  "limitFits s \<longleftrightarrow> unat (MAX_WEIGHT_DEVIATION_PCT s) * 100 < 2 ^ 256"

text \<open>
  Concrete states, for the examples: the thresholds of the constructor's documentation
  (800, 5, 21) and one lot \<open>L1\<close> of initial weight 100, with a transport temperature
  of 900 (\<open>lotHot\<close>) or 750 (\<open>lotCool\<close>), then received with a given final weight
  (\<open>lotReceived\<close>), then given a temperature of 900 after the reception
  (\<open>lotReheated\<close>). \<open>hugeWeight\<close> is \<open>10 ^ 76\<close>, a \<^verbatim>\<open>uint256\<close> value.
\<close>

definition env0 :: env where
  "env0 = \<lparr>msg_sender = 1, block_timestamp = 1700000000\<rparr>"

definition contract0 :: contract where
  "contract0 = constructor env0 800 5 21"


definition hugeWeight :: uint256 where
  "hugeWeight = 10000000000000000000000000000000000000000000000000000000000000000000000000000"

definition lotHot :: contract where
  "lotHot = run [(env0, RegisterBatchInitialData ''L1'' ''Hass'' 100),
                 (env0, UpdateTransportData ''L1'' 900)] contract0"

definition lotReceived :: "uint256 \<Rightarrow> contract" where
  "lotReceived w = run [(env0, RegisterBatchInitialData ''L1'' ''Hass'' 100),
                        (env0, UpdateTransportData ''L1'' 750),
                        (env0, UpdateReceptionData ''L1'' w)] contract0"


definition lotCool :: contract where
  "lotCool = run [(env0, RegisterBatchInitialData ''L1'' ''Hass'' 100),
                  (env0, UpdateTransportData ''L1'' 750)] contract0"


section \<open>The quality classifier of the upload handler (server.js)\<close>

text \<open>
  JavaScript strings are modelled as \<open>string\<close>, one \<open>char\<close> per character, for
  characters below U+0100. \<open>trim\<close> removes the white space and line terminators of that
  range. \<open>toUpperCase\<close> maps the letters a to z to A to Z and leaves every other
  character alone: below U+0100 the upper-case mapping of JavaScript sends no other
  character to a letter of A to Z (the sharp s becomes SS, which occurs in none of the
  words compared against), so each comparison with a status word is decided as in the
  source.
\<close>

definition isWhiteSpace :: "char \<Rightarrow> bool" where
  "isWhiteSpace c \<longleftrightarrow>
     c \<in> {CHR 0x09, CHR 0x0A, CHR 0x0B, CHR 0x0C, CHR 0x0D, CHR '' '', CHR 0xA0}"

definition trim :: "string \<Rightarrow> string" where
  "trim s = rev (dropWhile isWhiteSpace (rev (dropWhile isWhiteSpace s)))"

definition toUpperChar :: "char \<Rightarrow> char" where
  "toUpperChar c =
     (case map_of (zip ''abcdefghijklmnopqrstuvwxyz'' ''ABCDEFGHIJKLMNOPQRSTUVWXYZ'') c of
        Some u \<Rightarrow> u
      | None \<Rightarrow> c)"

definition toUpperCase :: "string \<Rightarrow> string" where
  "toUpperCase s = map toUpperChar s"

text \<open>\<^verbatim>\<open>s.split(sep)\<close> for a separator of one character; \<open>acc\<close> holds the current
  piece, reversed.\<close>

fun splitAcc :: "char \<Rightarrow> string \<Rightarrow> string \<Rightarrow> string list" where
  "splitAcc sep acc [] = [rev acc]"
| "splitAcc sep acc (c # cs) =
     (if c = sep then rev acc # splitAcc sep [] cs else splitAcc sep (c # acc) cs)"

definition split :: "char \<Rightarrow> string \<Rightarrow> string list" where
  "split sep s = splitAcc sep [] s"

text \<open>\<^verbatim>\<open>findIndex\<close>: the first index whose element satisfies the predicate, or -1.\<close>

fun findIndexFrom :: "int \<Rightarrow> ('a \<Rightarrow> bool) \<Rightarrow> 'a list \<Rightarrow> int" where
  "findIndexFrom i p [] = - 1"
| "findIndexFrom i p (x # xs) = (if p x then i else findIndexFrom (i + 1) p xs)"

definition findIndex :: "('a \<Rightarrow> bool) \<Rightarrow> 'a list \<Rightarrow> int" where
  "findIndex p xs = findIndexFrom 0 p xs"

text \<open>The four counters of the handler.\<close>

record counters =
  totalFrutas :: nat
  frutasConformes :: nat
  frutasConHallazgos :: nat
  frutasNoAdmitidas :: nat

definition noFrutas :: counters where
  "noFrutas = \<lparr>totalFrutas = 0, frutasConformes = 0, frutasConHallazgos = 0,
     frutasNoAdmitidas = 0\<rparr>"

text \<open>
  One line of data. \<open>lineValues\<close> is \<^verbatim>\<open>lines[i].split(',').map(v => v.trim())\<close>,
  \<open>countedRow\<close> the test that the line has enough columns and is not empty,
  \<open>rowStatus\<close> the normalised status and \<open>countStatus\<close> the chain of comparisons
  that picks the counter.
\<close>

definition lineValues :: "string \<Rightarrow> string list" where
  "lineValues line = map trim (split (CHR '','') line)"

definition countedRow :: "nat \<Rightarrow> string list \<Rightarrow> bool" where
  "countedRow nHeaders values \<longleftrightarrow> length values \<ge> nHeaders \<and> length (concat values) > 0"

definition rowStatus :: "int \<Rightarrow> string list \<Rightarrow> string" where
  "rowStatus statusIndex values =
     (if statusIndex \<ge> 0 then toUpperCase (trim (values ! nat statusIndex)) else ''OK'')"

definition countStatus :: "string \<Rightarrow> counters \<Rightarrow> counters" where
  "countStatus status c =
     (if status = ''OK'' \<or> status = ''CONFORME''
        then c\<lparr>frutasConformes := frutasConformes c + 1\<rparr>
      else if status = ''ALERTA'' \<or> status = ''HALLAZGO''
        then c\<lparr>frutasConHallazgos := frutasConHallazgos c + 1\<rparr>
      else if status = ''DESCARTE'' \<or> status = ''NO_ADMITIDA'' \<or> status = ''RECHAZADO''
        then c\<lparr>frutasNoAdmitidas := frutasNoAdmitidas c + 1\<rparr>
      else c\<lparr>frutasConformes := frutasConformes c + 1\<rparr>)"

definition countLine :: "nat \<Rightarrow> int \<Rightarrow> string \<Rightarrow> counters \<Rightarrow> counters" where
  "countLine nHeaders statusIndex line c =
     (let values = lineValues line
      in if countedRow nHeaders values
         then countStatus (rowStatus statusIndex values) (c\<lparr>totalFrutas := totalFrutas c + 1\<rparr>)
         else c)"

text \<open>The loop over the lines after the header.\<close>

fun countLines :: "nat \<Rightarrow> int \<Rightarrow> string list \<Rightarrow> counters \<Rightarrow> counters" where
  "countLines nHeaders statusIndex [] c = c"
| "countLines nHeaders statusIndex (line # rest) c =
     countLines nHeaders statusIndex rest (countLine nHeaders statusIndex line c)"

definition csvLines :: "string \<Rightarrow> string list" where
  "csvLines csvContent = filter (\<lambda>line. trim line \<noteq> []) (split (CHR 0x0A) csvContent)"

definition csvHeaders :: "string list \<Rightarrow> string list" where
  "csvHeaders lines = map trim (split (CHR '','') (lines ! 0))"

definition csvStatusIndex :: "string list \<Rightarrow> int" where
  "csvStatusIndex headers = findIndex (\<lambda>h. toUpperCase h = ''CALIDAD_STATUS'') headers"

definition countCsv :: "string \<Rightarrow> counters" where
  "countCsv csvContent =
     (let lines = csvLines csvContent
      in if length lines > 1
         then (let headers = csvHeaders lines
               in countLines (length headers) (csvStatusIndex headers) (drop 1 lines) noFrutas)
         else noFrutas)"

text \<open>The substitution of one conformant unit when nothing was counted.\<close>

definition orDefault :: "counters \<Rightarrow> counters" where
  "orDefault c = (if totalFrutas c = 0 then c\<lparr>totalFrutas := 1, frutasConformes := 1\<rparr> else c)"

text \<open>
  The counters the record is built from. The file content is \<open>None\<close> when
  \<^verbatim>\<open>readFileSync\<close> throws: the \<^verbatim>\<open>catch\<close> block then sets the counters to one
  conformant unit.
\<close>

definition uploadCounters :: "string option \<Rightarrow> counters" where
  "uploadCounters file =
     (case file of
        None \<Rightarrow> \<lparr>totalFrutas = 1, frutasConformes = 1, frutasConHallazgos = 0,
                 frutasNoAdmitidas = 0\<rparr>
      | Some csvContent \<Rightarrow> orDefault (countCsv csvContent))"

text \<open>
  Numbers. A JavaScript number is an IEEE 754 double; the model keeps its value, a
  rational number. Each arithmetic operation gives the double nearest to the exact
  result, the one with an even significand when two are equally near: for \<open>x\<close> not
  zero, \<open>ilog2 \<bar>x\<bar>\<close> is the exponent \<open>k\<close> with \<open>2 ^ k \<le> \<bar>x\<bar> < 2 ^ (k + 1)\<close>, and
  \<open>nearestDouble\<close> rounds \<open>\<bar>x\<bar>\<close> to a multiple of \<open>2 ^ (k - 52)\<close>, which leaves a
  significand of 53 bits. Magnitudes are within the normal range of a double in all that
  follows (no infinity, no NaN, no subnormal number: every divisor is a positive count).
  The counters are whole numbers below \<open>2 ^ 53\<close>, which a double holds exactly; they
  are natural numbers here.
\<close>

definition roundEven :: "rat \<Rightarrow> int" where
  "roundEven r =
     (let f = \<lfloor>r\<rfloor>; d = r - of_int f
      in if d < 1 / 2 then f else if 1 / 2 < d then f + 1 else if even f then f else f + 1)"

definition ilog2 :: "rat \<Rightarrow> int" where
  "ilog2 x =
     (case quotient_of x of (p, q) \<Rightarrow>
        (let k = bitlen p - bitlen q in if 2 powi k \<le> x then k else k - 1))"

definition nearestDouble :: "rat \<Rightarrow> rat" where
  "nearestDouble x =
     (if x = 0 then 0
      else (let e = ilog2 \<bar>x\<bar> - 52
            in sgn x * of_int (roundEven (\<bar>x\<bar> / 2 powi e)) * 2 powi e))"

definition fadd :: "rat \<Rightarrow> rat \<Rightarrow> rat" where
  "fadd a b = nearestDouble (a + b)"

definition fmul :: "rat \<Rightarrow> rat \<Rightarrow> rat" where
  "fmul a b = nearestDouble (a * b)"

definition fdiv :: "rat \<Rightarrow> rat \<Rightarrow> rat" where
  "fdiv a b = nearestDouble (a / b)"

text \<open>
  \<^verbatim>\<open>x.toFixed(d)\<close> is the decimal numeral \<open>n / 10 ^ d\<close> for the integer \<open>n\<close> that
  makes it nearest to the exact value of the double \<open>x\<close>, the larger \<open>n\<close> when two are
  equally near (for \<open>\<bar>x\<bar>\<close>, the sign put in front); \<open>toFixed\<close> is the value of that
  numeral. \<^verbatim>\<open>parseFloat\<close> of a decimal numeral is the double nearest to its value.
\<close>

definition toFixed :: "nat \<Rightarrow> rat \<Rightarrow> rat" where
  "toFixed d x = sgn x * of_int \<lfloor>\<bar>x\<bar> * 10 ^ d + 1 / 2\<rfloor> / 10 ^ d"

definition parseFloat :: "rat \<Rightarrow> rat" where
  "parseFloat v = nearestDouble v"

record CalidadFruta =
  total' :: nat
  conformes :: nat
  hallazgosMenores :: nat
  noAdmitidas :: nat
  porcentajeNoAdmitida :: rat
  porcentajeConformes :: rat
  porcentajeHallazgos :: rat

definition calidadOf :: "counters \<Rightarrow> CalidadFruta" where
  "calidadOf c =
     \<lparr>total' = totalFrutas c,
      conformes = frutasConformes c,
      hallazgosMenores = frutasConHallazgos c,
      noAdmitidas = frutasNoAdmitidas c,
      porcentajeNoAdmitida = parseFloat (toFixed 2
        (fmul (fdiv (of_nat (frutasNoAdmitidas c)) (of_nat (totalFrutas c))) 100)),
      porcentajeConformes = parseFloat (toFixed 2
        (fmul (fdiv (of_nat (frutasConformes c)) (of_nat (totalFrutas c))) 100)),
      porcentajeHallazgos = parseFloat (toFixed 2
        (fmul (fdiv (of_nat (frutasConHallazgos c)) (of_nat (totalFrutas c))) 100))\<rparr>"

definition uploadCalidad :: "string option \<Rightarrow> CalidadFruta" where
  "uploadCalidad file = calidadOf (uploadCounters file)"

text \<open>
  The units of an input: the rows that the loop counts, and their normalised statuses,
  with the three categories a status can fall in.
\<close>

definition countedRows :: "string \<Rightarrow> string list list" where
  "countedRows csvContent =
     (let lines = csvLines csvContent
      in if length lines > 1
         then filter (countedRow (length (csvHeaders lines))) (map lineValues (drop 1 lines))
         else [])"

definition unitStatuses :: "string \<Rightarrow> string list" where
  "unitStatuses csvContent =
     map (rowStatus (csvStatusIndex (csvHeaders (csvLines csvContent)))) (countedRows csvContent)"

definition isConforme :: "string \<Rightarrow> bool" where
  "isConforme status \<longleftrightarrow>
     status \<notin> {''ALERTA'', ''HALLAZGO'', ''DESCARTE'', ''NO_ADMITIDA'', ''RECHAZADO''}"

definition isHallazgo :: "string \<Rightarrow> bool" where
  "isHallazgo status \<longleftrightarrow> status \<in> {''ALERTA'', ''HALLAZGO''}"

definition isNoAdmitida :: "string \<Rightarrow> bool" where
  "isNoAdmitida status \<longleftrightarrow> status \<in> {''DESCARTE'', ''NO_ADMITIDA'', ''RECHAZADO''}"

definition sampleCsv :: string where
  "sampleCsv = ''LOTE_ID,Calidad_Status'' @ [CHR 0x0A] @
     ''L1, ok '' @ [CHR 0x0D, CHR 0x0A] @
     ''L2,Alerta'' @ [CHR 0x0A] @
     ''L3,descarte'' @ [CHR 0x0A] @
     ''L4,madura'' @ [CHR 0x0A] @
     ''L5'' @ [CHR 0x0A] @
     ''L6,RECHAZADO,x'' @ [CHR 0x0A]"

definition headerOnlyCsv :: string where
  "headerOnlyCsv = ''LOTE_ID,CALIDAD_STATUS'' @ [CHR 0x0A] @ ''L1'' @ [CHR 0x0A]"

section \<open>The history aggregator (aiAnalysis.js)\<close>

text \<open>
  A record of the history as \<^verbatim>\<open>processData\<close> reads it. \<open>date\<close> is the value of
  \<^verbatim>\<open>new Date(record.date)\<close>, in milliseconds since the epoch. \<open>calidadFruta\<close> is
  absent in a record written before the classifier existed; where present it was written
  by the upload handler, so its percentages are numbers (the test
  \<^verbatim>\<open>typeof ... === 'number'\<close> of the source holds). \<open>simResult\<close> is the verdict
  that \<^verbatim>\<open>/api/update-simulation\<close> attaches.
\<close>

record uploadRecord =
  fileName :: string
  date :: int
  processedBy :: string
  calidadFruta :: "CalidadFruta option"
  simResult :: "string option"

definition determineBatchStatus :: "uploadRecord \<Rightarrow> string" where
  "determineBatchStatus r =
     (case calidadFruta r of
        None \<Rightarrow> ''Pendiente''
      | Some q \<Rightarrow>
          if porcentajeNoAdmitida q > 15 then ''Descarte''
          else if porcentajeHallazgos q > 0 \<or> porcentajeNoAdmitida q > 0 then ''Hallazgo''
          else ''Conforme'')"

text \<open>
  The calendar date of an instant in the time zone of the host: \<open>tz\<close> gives, for an
  instant in milliseconds since the epoch, the offset of the local time in milliseconds
  (it changes with daylight saving). \<open>localDay\<close> is the number of the local day since
  the epoch, \<open>civilFromDays\<close> its proleptic Gregorian date (year, month, day).
\<close>

definition localDay :: "(int \<Rightarrow> int) \<Rightarrow> int \<Rightarrow> int" where
  "localDay tz ms = (ms + tz ms) div 86400000"

definition civilFromDays :: "int \<Rightarrow> int \<times> int \<times> int" where
  "civilFromDays days =
     (let z = days + 719468;
          era = z div 146097;
          doe = z - era * 146097;
          yoe = (doe - doe div 1460 + doe div 36524 - doe div 146096) div 365;
          doy = doe - (365 * yoe + yoe div 4 - yoe div 100);
          mp = (5 * doy + 2) div 153;
          d = doy - (153 * mp + 2) div 5 + 1;
          m = (if mp < 10 then mp + 3 else mp - 9);
          y = yoe + era * 400 + (if m \<le> 2 then 1 else 0)
      in (y, m, d))"

definition calendarDay :: "(int \<Rightarrow> int) \<Rightarrow> int \<Rightarrow> int \<times> int \<times> int" where
  "calendarDay tz ms = civilFromDays (localDay tz ms)"

text \<open>
  The key of the trend: \<^verbatim>\<open>toLocaleDateString('es-ES', {day: 'numeric', month: 'short'})\<close>
  prints the day of the month and the short name of the month, and nothing of the year.
  The key is kept as the pair (day, month) that the label spells.
\<close>

definition dayKey :: "(int \<Rightarrow> int) \<Rightarrow> int \<Rightarrow> int \<times> int" where
  "dayKey tz ms = (case calendarDay tz ms of (y, m, d) \<Rightarrow> (d, m))"

definition conformityOf :: "uploadRecord \<Rightarrow> rat" where
  "conformityOf r = (case calidadFruta r of None \<Rightarrow> 0 | Some q \<Rightarrow> porcentajeConformes q)"

text \<open>The first loop: the sum of the conformities, the count of each status.\<close>

record tally =
  totalConformitySum :: rat
  rejectedCount :: nat
  statusCounts :: "string \<Rightarrow> nat"

definition tallyStep :: "tally \<Rightarrow> uploadRecord \<Rightarrow> tally" where
  "tallyStep t r =
     (let status = determineBatchStatus r
      in \<lparr>totalConformitySum = fadd (totalConformitySum t) (conformityOf r),
          rejectedCount = (if status = ''Descarte'' then rejectedCount t + 1 else rejectedCount t),
          statusCounts = (statusCounts t)(status := statusCounts t status + 1)\<rparr>)"

definition tallyAll :: "uploadRecord list \<Rightarrow> tally" where
  "tallyAll rs = foldl tallyStep
     \<lparr>totalConformitySum = 0, rejectedCount = 0, statusCounts = (\<lambda>_. 0)\<rparr> rs"

text \<open>
  The second loop fills a \<^verbatim>\<open>Map\<close>, which keeps its keys in the order of their first
  insertion: an association list, a new key going to the end.
\<close>

record entry =
  sum' :: rat
  count :: nat

definition trendStep ::
  "(int \<Rightarrow> int) \<Rightarrow> ((int \<times> int) \<times> entry) list \<Rightarrow> uploadRecord
     \<Rightarrow> ((int \<times> int) \<times> entry) list" where
  "trendStep tz m r =
     (let key = dayKey tz (date r);
          m1 = (if map_of m key = None then m @ [(key, \<lparr>sum' = 0, count = 0\<rparr>)] else m);
          val = conformityOf r
      in map (\<lambda>(k, e). if k = key then (k, \<lparr>sum' = fadd (sum' e) val, count = count e + 1\<rparr>)
                        else (k, e)) m1)"

definition trendMap ::
  "(int \<Rightarrow> int) \<Rightarrow> uploadRecord list \<Rightarrow> ((int \<times> int) \<times> entry) list" where
  "trendMap tz rs = foldl (trendStep tz) [] rs"

text \<open>
  The result. \<^verbatim>\<open>toFixed(1)\<close> gives a string: \<open>conformidad\<close> and the data of the trend
  hold the value of that decimal numeral.
\<close>

record kpis =
  conformidad :: rat
  rechazados :: nat
  tiempo :: string
  completadas :: nat

record ('l, 'd) chart =
  labels :: "'l list"
  data :: "'d list"

record charts =
  trend :: "(int \<times> int, rat) chart"
  breakdown :: "(string, nat) chart"

record summary =
  kpis :: kpis
  charts :: charts

definition processData :: "(int \<Rightarrow> int) \<Rightarrow> uploadRecord list \<Rightarrow> string \<Rightarrow> summary" where
  "processData tz dat fltr =
     (let filteredData = dat;
          totalAudits = length filteredData
      in if totalAudits = 0 then
           \<lparr>kpis = \<lparr>conformidad = 0, rechazados = 0, tiempo = ''N/A'', completadas = 0\<rparr>,
            charts = \<lparr>trend = \<lparr>labels = [], data = []\<rparr>,
                      breakdown = \<lparr>labels = [], data = []\<rparr>\<rparr>\<rparr>
         else
           (let t = tallyAll filteredData;
                avgConformity = toFixed 1 (fdiv (totalConformitySum t) (of_nat totalAudits));
                sortedForTrend = sort_key date filteredData;
                trendMapSorted = trendMap tz sortedForTrend
            in \<lparr>kpis = \<lparr>conformidad = avgConformity, rechazados = rejectedCount t,
                        tiempo = ''N/A'', completadas = totalAudits\<rparr>,
                charts = \<lparr>trend = \<lparr>labels = map fst trendMapSorted,
                                   data = map (\<lambda>(k, v). toFixed 1 (fdiv (sum' v) (of_nat (count v))))
                                            trendMapSorted\<rparr>,
                          breakdown = \<lparr>labels = [''Descarte'', ''Hallazgo'', ''Conforme''],
                                       data = [statusCounts t ''Descarte'',
                                               statusCounts t ''Hallazgo'',
                                               statusCounts t ''Conforme'']\<rparr>\<rparr>\<rparr>))"

text \<open>
  Records for the examples: a lot with the given counts of conformant units, minor
  findings and units not admitted, as the upload handler stores it, and a lot without
  classifier output. \<open>threeLots\<close> are lots of 5 November 2025, 1 January 2025 and
  5 November 2024, each at noon UTC; \<open>utc\<close> is the time zone without offset.
\<close>

definition utc :: "int \<Rightarrow> int" where
  "utc ms = 0"

definition auditedLot :: "int \<Rightarrow> nat \<Rightarrow> nat \<Rightarrow> nat \<Rightarrow> uploadRecord" where
  "auditedLot ms c h n =
     \<lparr>fileName = ''lote.csv'', date = ms, processedBy = ''anonymous'',
      calidadFruta = Some (calidadOf \<lparr>totalFrutas = c + h + n, frutasConformes = c,
                                       frutasConHallazgos = h, frutasNoAdmitidas = n\<rparr>),
      simResult = None\<rparr>"

definition pendingLot :: "int \<Rightarrow> uploadRecord" where
  "pendingLot ms =
     \<lparr>fileName = ''lote.csv'', date = ms, processedBy = ''anonymous'',
      calidadFruta = None, simResult = Some ''Conforme''\<rparr>"

definition threeLots :: "uploadRecord list" where
  "threeLots = [auditedLot 1762344000000 60 40 0, auditedLot 1735732800000 100 0 0,
                auditedLot 1730808000000 80 20 0]"

text \<open>
  The quantities the trend is described with: the key of a lot, the keys of a list in
  the order of their first occurrence, the lots of a bucket, the entry that the loop
  builds for them (the sum of their conformities, added one by one, and their number),
  the value shown for the bucket and the earliest of their timestamps.
\<close>

definition lotKey :: "(int \<Rightarrow> int) \<Rightarrow> uploadRecord \<Rightarrow> int \<times> int" where
  "lotKey tz r = dayKey tz (date r)"

definition firstOccurrences :: "'a list \<Rightarrow> 'a list" where
  "firstOccurrences ks = rev (remdups (rev ks))"

definition bucket ::
  "(int \<Rightarrow> int) \<Rightarrow> uploadRecord list \<Rightarrow> int \<times> int \<Rightarrow> uploadRecord list" where
  "bucket tz rs k = filter (\<lambda>r. lotKey tz r = k) rs"

definition bucketEntry ::
  "(int \<Rightarrow> int) \<Rightarrow> uploadRecord list \<Rightarrow> int \<times> int \<Rightarrow> entry" where
  "bucketEntry tz rs k =
     \<lparr>sum' = foldl fadd 0 (map conformityOf (bucket tz rs k)), count = length (bucket tz rs k)\<rparr>"

definition bucketValue ::
  "(int \<Rightarrow> int) \<Rightarrow> uploadRecord list \<Rightarrow> int \<times> int \<Rightarrow> rat" where
  "bucketValue tz rs k =
     toFixed 1 (fdiv (sum' (bucketEntry tz rs k)) (of_nat (count (bucketEntry tz rs k))))"

definition earliest :: "(int \<Rightarrow> int) \<Rightarrow> uploadRecord list \<Rightarrow> int \<times> int \<Rightarrow> int" where
  "earliest tz rs k = Min (date ` set (bucket tz rs k))"
section \<open>Properties of the contract\<close>

lemma mul_checked_Inr: "unat a * unat b < 2 ^ 256 \<Longrightarrow> mul_checked a b = Inr (a * b)"
  by (simp add: mul_checked_def)

lemma unat_mul_100:
  assumes "unat (a :: uint256) * 100 < 2 ^ 256"
  shows "unat (a * 100) = unat a * 100"
  using assms unat_mult_lem [of a 100] by simp

lemma reasons_distinct:
  "reasonTemperatura \<noteq> reasonPeso" "reasonTemperatura \<noteq> reasonMateriaSeca"
  "reasonPeso \<noteq> reasonMateriaSeca" "reasonConforme \<noteq> reasonPeso"
  "reasonConforme \<noteq> reasonTemperatura" "reasonConforme \<noteq> reasonMateriaSeca"
  by (simp_all add: reasonTemperatura_def reasonPeso_def reasonMateriaSeca_def reasonConforme_def)

lemma auditWeight_skipped:
  "initWeight = 0 \<or> finalWeight = 0 \<Longrightarrow> auditWeight s initWeight finalWeight cr = Inr cr"
  by (auto simp: auditWeight_def)

lemma auditWeight_products:
  assumes "0 < initWeight" "0 < finalWeight"
    and "unat (absDifference initWeight finalWeight) * 10000 < 2 ^ 256"
  shows "auditWeight s initWeight finalWeight cr =
     (if fst cr then
        (case mul_checked (MAX_WEIGHT_DEVIATION_PCT s) 100 of
           Inl err \<Rightarrow> Inl err
         | Inr limit \<Rightarrow>
            if absDifference initWeight finalWeight * 100 * 100 div initWeight > limit
            then Inr (False, reasonPeso) else Inr cr)
      else Inr cr)"
proof -
  let ?d = "absDifference initWeight finalWeight"
  have d100: "unat ?d * 100 < 2 ^ 256" using assms(3) by simp
  then have m1: "mul_checked ?d 100 = Inr (?d * 100)"
    by (simp add: mul_checked_Inr)
  have "unat (?d * 100) * 100 < 2 ^ 256"
    using assms(3) unat_mul_100 [OF d100] by simp
  then have m2: "mul_checked (?d * 100) 100 = Inr (?d * 100 * 100)"
    by (simp add: mul_checked_Inr)
  show ?thesis
    apply (unfold auditWeight_def)
    apply (fold absDifference_def)
    apply (simp only: Let_def m1 m2 sum.case assms(1,2) simp_thms if_True)
    done
qed

lemma auditWeight_failed_before:
  assumes "\<not> fst cr" "deviationFits initWeight finalWeight"
  shows "auditWeight s initWeight finalWeight cr = Inr cr"
proof (cases "initWeight = 0 \<or> finalWeight = 0")
  case True
  then show ?thesis by (rule auditWeight_skipped)
next
  case False
  then have pos: "0 < initWeight" "0 < finalWeight"
    by (simp_all add: word_greater_zero_iff)
  from False assms(2) have "unat (absDifference initWeight finalWeight) * 10000 < 2 ^ 256"
    by (simp add: deviationFits_def)
  from auditWeight_products [OF pos this] assms(1) show ?thesis by simp
qed

lemma unat_absDifference_nat:
  "unat (absDifference a b) = (if unat b < unat a then unat a - unat b else unat b - unat a)"
proof (cases "b < a")
  case True
  then have "b \<le> a" by simp
  then have "unat (a - b) = unat a - unat b" by (rule unat_sub)
  with True show ?thesis by (simp add: absDifference_def word_less_nat_alt)
next
  case False
  then have "a \<le> b" by simp
  then have "unat (b - a) = unat b - unat a" by (rule unat_sub)
  with False show ?thesis by (simp add: absDifference_def word_less_nat_alt)
qed

lemma unat_weightDeviation:
  assumes "unat (absDifference initWeight finalWeight) * 10000 < 2 ^ 256"
  shows "unat (absDifference initWeight finalWeight * 100 * 100 div initWeight)
         = unat (absDifference initWeight finalWeight) * 10000 div unat initWeight"
proof -
  let ?d = "absDifference initWeight finalWeight"
  have d100: "unat ?d * 100 < 2 ^ 256" using assms by simp
  have "unat (?d * 100 * 100) = unat (?d * 100) * 100"
    using assms unat_mul_100 [OF d100] unat_mul_100 [of "?d * 100"] by simp
  then have "unat (?d * 100 * 100) = unat ?d * 10000"
    using unat_mul_100 [OF d100] by simp
  then show ?thesis by (simp add: unat_div)
qed

lemma abs_diff_of_nat:
  "\<bar>of_nat x - of_nat y\<bar> = (of_nat (if y < x then x - y else y - x) :: rat)"
  by simp

lemma fixed2_deviationPct:
  "fixed2 (deviationPct initWeight finalWeight)
   = of_nat (unat (absDifference initWeight finalWeight) * 10000 div unat initWeight) / 100"
proof -
  let ?d = "unat (absDifference initWeight finalWeight)"
  let ?w = "unat initWeight"
  have "deviationPct initWeight finalWeight = of_nat ?d / of_nat ?w * 100"
    unfolding deviationPct_def abs_diff_of_nat unat_absDifference_nat ..
  then have "deviationPct initWeight finalWeight * 100 = of_nat (?d * 10000) / of_nat ?w"
    by simp
  then have "\<lfloor>deviationPct initWeight finalWeight * 100\<rfloor> = int (?d * 10000 div ?w)"
    by (simp only: floor_divide_of_nat_eq)
  then show ?thesis
    by (simp add: fixed2_def)
qed


lemmas call_defs = registerBatchInitialData_def updateTransportData_def updateReceptionData_def
  evaluateBatch_def runAudits_def storeAudit_def auditTemperature_def auditWeight_def
  auditDryMatter_def resolvedTemp_def resolvedFinalWeight_def mul_checked_def

lemmas state_defs = contract0_def constructor_def env0_def zeroBatch_def zeroAudit_def

lemma lotHot_L1:
  "batches lotHot ''L1'' =
       \<lparr>loteId = ''L1'', variety = ''Hass'', registeredBy = 1, initialWeight = 100,
        finalWeightReceived = 0, avgTemperature = 900,
        audit = \<lparr>isCompliant = False, reason = reasonPendiente, timestamp = 1700000000\<rparr>\<rparr>"
  "MAX_TEMP_TRANSPORT_C lotHot = 800" "MAX_WEIGHT_DEVIATION_PCT lotHot = 5"
  "MIN_DRY_MATTER_PCT lotHot = 21"
  by (simp_all add: lotHot_def call_defs state_defs)

lemma lotReceived_96:
  "batches (lotReceived 96) ''L1'' =
       \<lparr>loteId = ''L1'', variety = ''Hass'', registeredBy = 1, initialWeight = 100,
        finalWeightReceived = 96, avgTemperature = 750,
        audit = \<lparr>isCompliant = True, reason = reasonConforme, timestamp = 1700000000\<rparr>\<rparr>"
  by (simp add: lotReceived_def call_defs state_defs)

lemma lotReceived_90:
  "batches (lotReceived 90) ''L1'' =
       \<lparr>loteId = ''L1'', variety = ''Hass'', registeredBy = 1, initialWeight = 100,
        finalWeightReceived = 90, avgTemperature = 750,
        audit = \<lparr>isCompliant = False, reason = reasonPeso, timestamp = 1700000000\<rparr>\<rparr>"
  by (simp add: lotReceived_def call_defs state_defs)

lemma hot_overflow:
  "evaluateBatch env0 ''L1'' 0 hugeWeight 0 lotHot = Inl (Panic 17)"
  by (simp add: lotHot_def hugeWeight_def call_defs state_defs)


lemma storeAudit_audit:
  "audit (batches (storeAudit e lote cr s) lote) =
     \<lparr>isCompliant = fst cr, reason = snd cr, timestamp = block_timestamp e\<rparr>"
  by (simp add: storeAudit_def)

text \<open>
  Claim C1, as the code has it. When the resolved temperature is above
  \<^verbatim>\<open>MAX_TEMP_TRANSPORT_C\<close> and the product \<^verbatim>\<open>difference * 100 * 100\<close> of the weight
  audit fits in 256 bits (or that audit is skipped, a weight being zero),
  \<^verbatim>\<open>evaluateBatch\<close> succeeds and stores a non-compliant result whose reason is the
  one of the temperature, which is neither the reason of the weight deviation nor the
  one of the dry matter, whatever the weights and the dry matter are.
\<close>

theorem temperature_failure_wins:
  "MAX_TEMP_TRANSPORT_C s < resolvedTemp s lote tIn
   \<and> deviationFits (initialWeight (batches s lote)) (resolvedFinalWeight s lote wIn)
   \<longrightarrow> evaluateBatch e lote tIn wIn dIn s = Inr (storeAudit e lote (False, reasonTemperatura) s)
       \<and> audit (batches (storeAudit e lote (False, reasonTemperatura) s) lote)
           = \<lparr>isCompliant = False, reason = reasonTemperatura, timestamp = block_timestamp e\<rparr>
       \<and> reasonTemperatura \<noteq> reasonPeso \<and> reasonTemperatura \<noteq> reasonMateriaSeca"
proof (intro impI, elim conjE)
  assume hot: "MAX_TEMP_TRANSPORT_C s < resolvedTemp s lote tIn"
    and fits: "deviationFits (initialWeight (batches s lote)) (resolvedFinalWeight s lote wIn)"
  have t: "auditTemperature s (resolvedTemp s lote tIn) (True, reasonConforme)
           = (False, reasonTemperatura)"
    using hot by (simp add: auditTemperature_def)
  have w: "auditWeight s (initialWeight (batches s lote)) (resolvedFinalWeight s lote wIn)
             (False, reasonTemperatura) = Inr (False, reasonTemperatura)"
    using fits by (simp add: auditWeight_failed_before)
  have d: "auditDryMatter s dIn (False, reasonTemperatura) = (False, reasonTemperatura)"
    by (simp add: auditDryMatter_def)
  have "runAudits s lote tIn wIn dIn = Inr (False, reasonTemperatura)"
    by (simp add: runAudits_def Let_def t w d)
  then have "evaluateBatch e lote tIn wIn dIn s
             = Inr (storeAudit e lote (False, reasonTemperatura) s)"
    by (simp add: evaluateBatch_def)
  then show "evaluateBatch e lote tIn wIn dIn s = Inr (storeAudit e lote (False, reasonTemperatura) s)
       \<and> audit (batches (storeAudit e lote (False, reasonTemperatura) s) lote)
           = \<lparr>isCompliant = False, reason = reasonTemperatura, timestamp = block_timestamp e\<rparr>
       \<and> reasonTemperatura \<noteq> reasonPeso \<and> reasonTemperatura \<noteq> reasonMateriaSeca"
    by (simp add: storeAudit_audit reasons_distinct)
qed

text \<open>
  The lot \<open>L1\<close> with a stored temperature of 900, a final weight of 50 for an initial
  weight of 100 and a dry matter of 10: the audits of the weight and of the dry matter
  would fail on their own, the stored reason is the one of the temperature.
\<close>

theorem temperature_failure_wins_witness:
  "MAX_TEMP_TRANSPORT_C lotHot < resolvedTemp lotHot ''L1'' 0
   \<and> deviationFits (initialWeight (batches lotHot ''L1'')) (resolvedFinalWeight lotHot ''L1'' 50)
   \<and> auditWeight lotHot 100 50 (True, reasonConforme) = Inr (False, reasonPeso)
   \<and> auditDryMatter lotHot 10 (True, reasonConforme) = (False, reasonMateriaSeca)
   \<and> evaluateBatch env0 ''L1'' 0 50 10 lotHot
       = Inr (storeAudit env0 ''L1'' (False, reasonTemperatura) lotHot)"
proof -
  have a: "MAX_TEMP_TRANSPORT_C lotHot < resolvedTemp lotHot ''L1'' 0"
    by (simp add: lotHot_L1 resolvedTemp_def)
  have b: "deviationFits (initialWeight (batches lotHot ''L1'')) (resolvedFinalWeight lotHot ''L1'' 50)"
    by (simp add: lotHot_L1 resolvedFinalWeight_def deviationFits_def absDifference_def)
  have c: "auditWeight lotHot 100 50 (True, reasonConforme) = Inr (False, reasonPeso)"
    by (simp add: auditWeight_def mul_checked_def lotHot_L1)
  have d: "auditDryMatter lotHot 10 (True, reasonConforme) = (False, reasonMateriaSeca)"
    by (simp add: auditDryMatter_def lotHot_L1)
  from temperature_failure_wins [of lotHot "''L1''" 0 50 env0 10] a b c d
  show ?thesis by blast
qed

text \<open>
  Claim C1 as stated fails: with a final weight of \<open>10 ^ 76\<close> the product
  \<^verbatim>\<open>difference * 100\<close> leaves the range of \<^verbatim>\<open>uint256\<close> and the call aborts with
  \<^verbatim>\<open>Panic(0x11)\<close>, although the temperature is above the threshold; no result is
  stored.
\<close>

theorem temperature_failure_overflow:
  "MAX_TEMP_TRANSPORT_C lotHot < resolvedTemp lotHot ''L1'' 0
   \<and> evaluateBatch env0 ''L1'' 0 hugeWeight 0 lotHot = Inl (Panic 17)"
  by (simp add: lotHot_L1 resolvedTemp_def hot_overflow)


lemma auditWeight_compliant:
  assumes "0 < initWeight" "0 < finalWeight"
    and "unat (absDifference initWeight finalWeight) * 10000 < 2 ^ 256"
    and "limitFits s"
  shows "auditWeight s initWeight finalWeight (True, r) =
     Inr (if of_nat (unat (MAX_WEIGHT_DEVIATION_PCT s)) < fixed2 (deviationPct initWeight finalWeight)
          then (False, reasonPeso) else (True, r))"
proof -
  let ?dev = "absDifference initWeight finalWeight * 100 * 100 div initWeight"
  let ?n = "unat (absDifference initWeight finalWeight) * 10000 div unat initWeight"
  have lim: "mul_checked (MAX_WEIGHT_DEVIATION_PCT s) 100 = Inr (MAX_WEIGHT_DEVIATION_PCT s * 100)"
    using assms(4) by (simp add: limitFits_def mul_checked_Inr)
  have ulim: "unat (MAX_WEIGHT_DEVIATION_PCT s * 100) = unat (MAX_WEIGHT_DEVIATION_PCT s) * 100"
    using assms(4) by (simp add: limitFits_def unat_mul_100)
  have "MAX_WEIGHT_DEVIATION_PCT s * 100 < ?dev
        \<longleftrightarrow> unat (MAX_WEIGHT_DEVIATION_PCT s) * 100 < ?n"
    unfolding word_less_nat_alt ulim unat_weightDeviation [OF assms(3)] ..
  also have "\<dots> \<longleftrightarrow> (of_nat (unat (MAX_WEIGHT_DEVIATION_PCT s) * 100) :: rat) < of_nat ?n"
    by (simp only: of_nat_less_iff)
  also have "\<dots> \<longleftrightarrow> of_nat (unat (MAX_WEIGHT_DEVIATION_PCT s)) < fixed2 (deviationPct initWeight finalWeight)"
    by (simp add: fixed2_deviationPct pos_less_divide_eq)
  finally have cmp: "MAX_WEIGHT_DEVIATION_PCT s * 100 < ?dev
        \<longleftrightarrow> of_nat (unat (MAX_WEIGHT_DEVIATION_PCT s)) < fixed2 (deviationPct initWeight finalWeight)" .
  have "auditWeight s initWeight finalWeight (True, r) =
          (if MAX_WEIGHT_DEVIATION_PCT s * 100 < ?dev then Inr (False, reasonPeso)
           else Inr (True, r))"
    unfolding auditWeight_products [OF assms(1-3)] lim
    by (simp only: fst_conv if_True sum.case)
  then show ?thesis
    unfolding cmp by (simp only: if_distrib [of Inr])
qed

lemma auditDryMatter_reason:
  "snd (auditDryMatter s d (True, reasonConforme)) \<noteq> reasonPeso"
  by (simp add: auditDryMatter_def reasons_distinct(3) [symmetric] reasons_distinct)

text \<open>
  Claim C2, as the code has it. For a lot with positive initial weight and positive
  resolved final weight that passes the audit of the temperature, and as long as the
  products \<^verbatim>\<open>difference * 100 * 100\<close> and \<^verbatim>\<open>MAX_WEIGHT_DEVIATION_PCT * 100\<close> fit in
  256 bits, \<^verbatim>\<open>evaluateBatch\<close> succeeds and stores the weight-deviation failure exactly
  when the deviation \<open>|initialWeight - finalWeight| / initialWeight * 100\<close>, truncated to
  two decimals, is greater than \<^verbatim>\<open>MAX_WEIGHT_DEVIATION_PCT\<close>; otherwise the verdict is
  the one of the audit of the dry matter. With the thresholds 800, 5, 21, a temperature
  of 750 and an initial weight of 100, a reception of 96 (4 percent) is stored as
  compliant and a reception of 90 (10 percent) as the weight-deviation failure.
\<close>
theorem weight_deviation_audit:
  "(\<not> MAX_TEMP_TRANSPORT_C s < resolvedTemp s lote tIn
    \<and> 0 < initialWeight (batches s lote) \<and> 0 < resolvedFinalWeight s lote wIn
    \<and> deviationFits (initialWeight (batches s lote)) (resolvedFinalWeight s lote wIn)
    \<and> limitFits s
    \<longrightarrow> evaluateBatch e lote tIn wIn dIn s
          = Inr (storeAudit e lote
                  (if of_nat (unat (MAX_WEIGHT_DEVIATION_PCT s))
                        < fixed2 (deviationPct (initialWeight (batches s lote))
                                    (resolvedFinalWeight s lote wIn))
                   then (False, reasonPeso)
                   else auditDryMatter s dIn (True, reasonConforme)) s)
        \<and> (case evaluateBatch e lote tIn wIn dIn s of
              Inl err \<Rightarrow> False
            | Inr s' \<Rightarrow>
                (\<not> isCompliant (audit (batches s' lote))
                   \<and> reason (audit (batches s' lote)) = reasonPeso)
                = (of_nat (unat (MAX_WEIGHT_DEVIATION_PCT s))
                     < fixed2 (deviationPct (initialWeight (batches s lote))
                                 (resolvedFinalWeight s lote wIn)))))
   \<and> fixed2 (deviationPct 100 96) = 4
   \<and> audit (batches (lotReceived 96) ''L1'')
       = \<lparr>isCompliant = True, reason = reasonConforme, timestamp = 1700000000\<rparr>
   \<and> fixed2 (deviationPct 100 90) = 10
   \<and> audit (batches (lotReceived 90) ''L1'')
       = \<lparr>isCompliant = False, reason = reasonPeso, timestamp = 1700000000\<rparr>"
proof (intro conjI impI)
  let ?iw = "initialWeight (batches s lote)"
  let ?fw = "resolvedFinalWeight s lote wIn"
  let ?cr = "if of_nat (unat (MAX_WEIGHT_DEVIATION_PCT s)) < fixed2 (deviationPct ?iw ?fw)
             then (False, reasonPeso) else auditDryMatter s dIn (True, reasonConforme)"
  assume h: "\<not> MAX_TEMP_TRANSPORT_C s < resolvedTemp s lote tIn \<and> 0 < ?iw \<and> 0 < ?fw
             \<and> deviationFits ?iw ?fw \<and> limitFits s"
  then have fits: "unat (absDifference ?iw ?fw) * 10000 < 2 ^ 256"
    by (auto simp: deviationFits_def)
  have t: "auditTemperature s (resolvedTemp s lote tIn) (True, reasonConforme) = (True, reasonConforme)"
    using h by (simp add: auditTemperature_def)
  have w: "auditWeight s ?iw ?fw (True, reasonConforme) =
     Inr (if of_nat (unat (MAX_WEIGHT_DEVIATION_PCT s)) < fixed2 (deviationPct ?iw ?fw)
          then (False, reasonPeso) else (True, reasonConforme))"
    using h fits by (simp add: auditWeight_compliant)
  have d: "auditDryMatter s dIn (False, reasonPeso) = (False, reasonPeso)"
    by (simp add: auditDryMatter_def)
  have "runAudits s lote tIn wIn dIn = Inr ?cr"
    by (simp add: runAudits_def Let_def t w d)
  then show ev: "evaluateBatch e lote tIn wIn dIn s = Inr (storeAudit e lote ?cr s)"
    by (simp add: evaluateBatch_def)
  show "case evaluateBatch e lote tIn wIn dIn s of
              Inl err \<Rightarrow> False
            | Inr s' \<Rightarrow>
                (\<not> isCompliant (audit (batches s' lote))
                   \<and> reason (audit (batches s' lote)) = reasonPeso)
                = (of_nat (unat (MAX_WEIGHT_DEVIATION_PCT s)) < fixed2 (deviationPct ?iw ?fw))"
    using auditDryMatter_reason [of s dIn]
    by (simp add: ev storeAudit_audit)
next
  show "fixed2 (deviationPct 100 96) = 4"
    by (simp add: fixed2_def deviationPct_def)
next
  show "fixed2 (deviationPct 100 90) = 10"
    by (simp add: fixed2_def deviationPct_def)
next
  show "audit (batches (lotReceived 96) ''L1'')
       = \<lparr>isCompliant = True, reason = reasonConforme, timestamp = 1700000000\<rparr>"
    by (simp add: lotReceived_96)
next
  show "audit (batches (lotReceived 90) ''L1'')
       = \<lparr>isCompliant = False, reason = reasonPeso, timestamp = 1700000000\<rparr>"
    by (simp add: lotReceived_90)
qed


lemma lotCool_L1:
  "batches lotCool ''L1'' =
       \<lparr>loteId = ''L1'', variety = ''Hass'', registeredBy = 1, initialWeight = 100,
        finalWeightReceived = 0, avgTemperature = 750,
        audit = \<lparr>isCompliant = False, reason = reasonPendiente, timestamp = 1700000000\<rparr>\<rparr>"
  "MAX_TEMP_TRANSPORT_C lotCool = 800" "MAX_WEIGHT_DEVIATION_PCT lotCool = 5"
  "MIN_DRY_MATTER_PCT lotCool = 21"
  by (simp_all add: lotCool_def call_defs state_defs)

text \<open>
  The lot \<open>L1\<close> at a temperature of 750, evaluated with a final weight of 90: every
  premise holds and the stored reason is the one of the weight deviation.
\<close>

theorem weight_deviation_audit_witness:
  "\<not> MAX_TEMP_TRANSPORT_C lotCool < resolvedTemp lotCool ''L1'' 0
   \<and> 0 < initialWeight (batches lotCool ''L1'') \<and> 0 < resolvedFinalWeight lotCool ''L1'' 90
   \<and> deviationFits (initialWeight (batches lotCool ''L1'')) (resolvedFinalWeight lotCool ''L1'' 90)
   \<and> limitFits lotCool
   \<and> evaluateBatch env0 ''L1'' 0 90 0 lotCool
       = Inr (storeAudit env0 ''L1'' (False, reasonPeso) lotCool)"
proof -
  have a: "\<not> MAX_TEMP_TRANSPORT_C lotCool < resolvedTemp lotCool ''L1'' 0"
    by (simp add: lotCool_L1 resolvedTemp_def)
  have b: "0 < initialWeight (batches lotCool ''L1'')" "0 < resolvedFinalWeight lotCool ''L1'' 90"
    by (simp_all add: lotCool_L1 resolvedFinalWeight_def)
  have c: "deviationFits (initialWeight (batches lotCool ''L1'')) (resolvedFinalWeight lotCool ''L1'' 90)"
    by (simp add: lotCool_L1 resolvedFinalWeight_def deviationFits_def absDifference_def)
  have d: "limitFits lotCool"
    by (simp add: limitFits_def lotCool_L1)
  have f: "fixed2 (deviationPct (initialWeight (batches lotCool ''L1''))
                     (resolvedFinalWeight lotCool ''L1'' 90)) = 10"
    by (simp add: lotCool_L1 resolvedFinalWeight_def fixed2_def deviationPct_def)
  from weight_deviation_audit [of lotCool "''L1''" 0 90 env0 0] a b c d
  have "evaluateBatch env0 ''L1'' 0 90 0 lotCool
       = Inr (storeAudit env0 ''L1''
                  (if of_nat (unat (MAX_WEIGHT_DEVIATION_PCT lotCool))
                        < fixed2 (deviationPct (initialWeight (batches lotCool ''L1''))
                                    (resolvedFinalWeight lotCool ''L1'' 90))
                   then (False, reasonPeso)
                   else auditDryMatter lotCool 0 (True, reasonConforme)) lotCool)"
    by blast
  then have "evaluateBatch env0 ''L1'' 0 90 0 lotCool
       = Inr (storeAudit env0 ''L1'' (False, reasonPeso) lotCool)"
    unfolding f by (simp add: lotCool_L1)
  with a b c d show ?thesis by blast
qed

text \<open>
  Claim C2 as stated fails: a lot that passes the audit of the temperature, with both
  weights positive, for which the call aborts with \<^verbatim>\<open>Panic(0x11)\<close>.
\<close>

theorem weight_deviation_overflow:
  "\<not> MAX_TEMP_TRANSPORT_C lotCool < resolvedTemp lotCool ''L1'' 0
   \<and> 0 < initialWeight (batches lotCool ''L1'')
   \<and> 0 < resolvedFinalWeight lotCool ''L1'' hugeWeight
   \<and> evaluateBatch env0 ''L1'' 0 hugeWeight 0 lotCool = Inl (Panic 17)"
  by (simp add: lotCool_def hugeWeight_def call_defs state_defs)

lemma runAudits_fits:
  assumes "deviationFits (initialWeight (batches s lote)) (resolvedFinalWeight s lote wIn)"
    and "limitFits s"
  shows "\<exists>cr. runAudits s lote tIn wIn dIn = Inr cr"
proof -
  let ?iw = "initialWeight (batches s lote)"
  let ?fw = "resolvedFinalWeight s lote wIn"
  let ?cr1 = "auditTemperature s (resolvedTemp s lote tIn) (True, reasonConforme)"
  have "\<exists>cr2. auditWeight s ?iw ?fw ?cr1 = Inr cr2"
  proof (cases "fst ?cr1")
    case False
    then show ?thesis using assms(1) by (simp add: auditWeight_failed_before)
  next
    case True
    then have cr1: "?cr1 = (True, reasonConforme)"
      by (simp add: auditTemperature_def split: if_splits)
    show ?thesis
    proof (cases "?iw = 0 \<or> ?fw = 0")
      case True
      then show ?thesis by (simp add: auditWeight_skipped)
    next
      case False
      then have pos: "0 < ?iw" "0 < ?fw" by (simp_all add: word_greater_zero_iff)
      from False assms(1) have "unat (absDifference ?iw ?fw) * 10000 < 2 ^ 256"
        by (simp add: deviationFits_def)
      from auditWeight_compliant [OF pos this assms(2)] show ?thesis
        unfolding cr1 by blast
    qed
  qed
  then show ?thesis by (auto simp: runAudits_def Let_def)
qed












lemma runAudits_no_revert: "runAudits s lote tIn wIn dIn \<noteq> Inl (Revert msg)"
  by (auto simp: runAudits_def auditWeight_def mul_checked_def Let_def split: sum.splits if_splits)

lemma runAudits_zero:
  assumes "initialWeight (batches s lote) = 0"
  shows "runAudits s lote tIn wIn dIn
         = Inr (auditDryMatter s dIn (auditTemperature s (resolvedTemp s lote tIn) (True, reasonConforme)))"
  using assms by (simp add: runAudits_def Let_def auditWeight_skipped)

text \<open>
  Claim C10, as the code has it. \<^verbatim>\<open>evaluateBatch\<close> has no \<^verbatim>\<open>require\<close>: for no lot
  and no input does it abort with a message, and it succeeds whenever the products of the
  weight audit fit in 256 bits. For a lot never registered (its entry is the zero value)
  it always succeeds: the weight audit is skipped, the verdict comes from the inputs and
  the thresholds alone, it is stored under that id with the timestamp of the block, and,
  that timestamp being non-zero, a later \<^verbatim>\<open>registerBatchInitialData\<close> for the same
  id aborts with \<^verbatim>\<open>Lote ya registrado.\<close>
\<close>

theorem evaluateBatch_unregistered:
  "evaluateBatch e lote tIn wIn dIn s \<noteq> Inl (Revert msg)
   \<and> (deviationFits (initialWeight (batches s lote)) (resolvedFinalWeight s lote wIn)
        \<and> limitFits s
      \<longrightarrow> (\<exists>cr. evaluateBatch e lote tIn wIn dIn s = Inr (storeAudit e lote cr s)))
   \<and> (batches s lote = zeroBatch \<and> block_timestamp e \<noteq> 0
      \<longrightarrow> evaluateBatch e lote tIn wIn dIn s
            = Inr (storeAudit e lote
                     (auditDryMatter s dIn (auditTemperature s tIn (True, reasonConforme))) s)
          \<and> audit (batches (storeAudit e lote
                     (auditDryMatter s dIn (auditTemperature s tIn (True, reasonConforme))) s) lote)
             = \<lparr>isCompliant = fst (auditDryMatter s dIn (auditTemperature s tIn (True, reasonConforme))),
                reason = snd (auditDryMatter s dIn (auditTemperature s tIn (True, reasonConforme))),
                timestamp = block_timestamp e\<rparr>
          \<and> registerBatchInitialData e' lote var w
               (storeAudit e lote
                     (auditDryMatter s dIn (auditTemperature s tIn (True, reasonConforme))) s)
             = Inl (Revert ''Lote ya registrado.''))"
proof (intro conjI impI)
  show "evaluateBatch e lote tIn wIn dIn s \<noteq> Inl (Revert msg)"
    using runAudits_no_revert [of s lote tIn wIn dIn msg]
    by (auto simp: evaluateBatch_def split: sum.splits)
next
  assume "deviationFits (initialWeight (batches s lote)) (resolvedFinalWeight s lote wIn)
          \<and> limitFits s"
  then obtain cr where "runAudits s lote tIn wIn dIn = Inr cr"
    using runAudits_fits [of s lote wIn tIn dIn] by blast
  then have "evaluateBatch e lote tIn wIn dIn s = Inr (storeAudit e lote cr s)"
    by (simp add: evaluateBatch_def)
  then show "\<exists>cr. evaluateBatch e lote tIn wIn dIn s = Inr (storeAudit e lote cr s)" ..
next
  let ?cr = "auditDryMatter s dIn (auditTemperature s tIn (True, reasonConforme))"
  assume h: "batches s lote = zeroBatch \<and> block_timestamp e \<noteq> 0"
  then have z: "initialWeight (batches s lote) = 0" "resolvedTemp s lote tIn = tIn"
    by (simp_all add: zeroBatch_def resolvedTemp_def)
  show "evaluateBatch e lote tIn wIn dIn s = Inr (storeAudit e lote ?cr s)"
    using runAudits_zero [OF z(1), of tIn wIn dIn] by (simp add: evaluateBatch_def z(2))
  show "audit (batches (storeAudit e lote ?cr s) lote)
        = \<lparr>isCompliant = fst ?cr, reason = snd ?cr, timestamp = block_timestamp e\<rparr>"
    by (rule storeAudit_audit)
  show "registerBatchInitialData e' lote var w (storeAudit e lote ?cr s)
        = Inl (Revert ''Lote ya registrado.'')"
    using h by (simp add: registerBatchInitialData_def storeAudit_audit)
qed

text \<open>
  The id \<open>L9\<close> was never registered: its evaluation succeeds, and its registration
  afterwards is refused.
\<close>

theorem evaluateBatch_unregistered_witness:
  "batches contract0 ''L9'' = zeroBatch \<and> block_timestamp env0 \<noteq> 0
   \<and> evaluateBatch env0 ''L9'' 0 0 0 contract0
       = Inr (storeAudit env0 ''L9'' (True, reasonConforme) contract0)
   \<and> registerBatchInitialData env0 ''L9'' ''Hass'' 100
        (storeAudit env0 ''L9'' (True, reasonConforme) contract0)
       = Inl (Revert ''Lote ya registrado.'')"
proof -
  have a: "batches contract0 ''L9'' = zeroBatch" "block_timestamp env0 \<noteq> 0"
    by (simp_all add: state_defs)
  have b: "auditDryMatter contract0 0 (auditTemperature contract0 0 (True, reasonConforme))
           = (True, reasonConforme)"
    by (simp add: auditDryMatter_def auditTemperature_def state_defs)
  from evaluateBatch_unregistered [of env0 "''L9''" 0 0 0 contract0 _ env0 "''Hass''" 100] a
  show ?thesis unfolding b by blast
qed

text \<open>
  Claim C10 as stated fails for a registered lot: the call aborts with \<^verbatim>\<open>Panic(0x11)\<close>
  when the product of the weight audit leaves the range.
\<close>

theorem evaluateBatch_registered_overflow:
  "timestamp (audit (batches lotCool ''L1'')) \<noteq> 0
   \<and> evaluateBatch env0 ''L1'' 0 hugeWeight 0 lotCool = Inl (Panic 17)"
  by (simp add: lotCool_def hugeWeight_def call_defs state_defs)



section \<open>Properties of the classifier and of the aggregator\<close>


lemma toUpperChar_cases:
  "toUpperChar c = c \<or> c \<in> set ''abcdefghijklmnopqrstuvwxyz''"
  by (simp add: toUpperChar_def)

lemma isWhiteSpace_toUpperChar: "isWhiteSpace (toUpperChar c) = isWhiteSpace c"
proof (cases "c \<in> set ''abcdefghijklmnopqrstuvwxyz''")
  case True
  then show ?thesis
    by (auto simp: toUpperChar_def isWhiteSpace_def)
next
  case False
  with toUpperChar_cases [of c] show ?thesis by simp
qed

lemma dropWhile_toUpperCase:
  "dropWhile isWhiteSpace (toUpperCase s) = toUpperCase (dropWhile isWhiteSpace s)"
  by (induction s) (simp_all add: toUpperCase_def isWhiteSpace_toUpperChar)

lemma toUpperCase_rev: "toUpperCase (rev s) = rev (toUpperCase s)"
  by (simp add: toUpperCase_def rev_map)

lemma toUpperCase_trim: "toUpperCase (trim s) = trim (toUpperCase s)"
  by (simp add: trim_def dropWhile_toUpperCase toUpperCase_rev [symmetric])

lemma status_partition:
  "isConforme st = (\<not> isHallazgo st \<and> \<not> isNoAdmitida st)"
  "\<not> (isHallazgo st \<and> isNoAdmitida st)"
  by (auto simp: isConforme_def isHallazgo_def isNoAdmitida_def)

lemma countStatus_eq:
  "countStatus st c =
     (if isHallazgo st then c\<lparr>frutasConHallazgos := frutasConHallazgos c + 1\<rparr>
      else if isNoAdmitida st then c\<lparr>frutasNoAdmitidas := frutasNoAdmitidas c + 1\<rparr>
      else c\<lparr>frutasConformes := frutasConformes c + 1\<rparr>)"
  by (simp add: countStatus_def isHallazgo_def isNoAdmitida_def)

lemma countLines_eq:
  "countLines n si ls c
   = \<lparr>totalFrutas = totalFrutas c
         + length (map (rowStatus si) (filter (countedRow n) (map lineValues ls))),
      frutasConformes = frutasConformes c
         + length (filter isConforme (map (rowStatus si) (filter (countedRow n) (map lineValues ls)))),
      frutasConHallazgos = frutasConHallazgos c
         + length (filter isHallazgo (map (rowStatus si) (filter (countedRow n) (map lineValues ls)))),
      frutasNoAdmitidas = frutasNoAdmitidas c
         + length (filter isNoAdmitida (map (rowStatus si) (filter (countedRow n) (map lineValues ls))))\<rparr>"
proof (induction ls arbitrary: c)
  case Nil
  then show ?case by simp
next
  case (Cons l ls)
  show ?case
    using status_partition(2) [of "rowStatus si (lineValues l)"]
    by (auto simp: Cons.IH countLine_def Let_def countStatus_eq status_partition(1))
qed

lemma countCsv_eq:
  "countCsv csv =
     \<lparr>totalFrutas = length (unitStatuses csv),
      frutasConformes = length (filter isConforme (unitStatuses csv)),
      frutasConHallazgos = length (filter isHallazgo (unitStatuses csv)),
      frutasNoAdmitidas = length (filter isNoAdmitida (unitStatuses csv))\<rparr>"
  by (simp add: countCsv_def unitStatuses_def countedRows_def Let_def countLines_eq noFrutas_def)


lemma filter_partition_length:
  "length (filter isConforme us) + length (filter isHallazgo us)
     + length (filter isNoAdmitida us) = length us"
proof (induction us)
  case Nil
  then show ?case by simp
next
  case (Cons u us)
  then show ?case
    using status_partition(2) [of u] by (auto simp: status_partition(1))
qed

lemma uploadCounters_sum:
  "frutasConformes (uploadCounters inp) + frutasConHallazgos (uploadCounters inp)
     + frutasNoAdmitidas (uploadCounters inp) = totalFrutas (uploadCounters inp)"
proof (cases inp)
  case None
  then show ?thesis by (simp add: uploadCounters_def)
next
  case (Some csv)
  show ?thesis
  proof (cases "unitStatuses csv = []")
    case True
    then show ?thesis by (simp add: Some uploadCounters_def orDefault_def countCsv_eq)
  next
    case False
    then show ?thesis
      using filter_partition_length [of "unitStatuses csv"]
      by (simp add: Some uploadCounters_def orDefault_def countCsv_eq)
  qed
qed

lemma uploadCounters_pos: "0 < totalFrutas (uploadCounters inp)"
  by (cases inp) (simp_all add: uploadCounters_def orDefault_def)

lemma toFixed_error:
  assumes "0 \<le> x"
  shows "\<bar>toFixed 2 x - x\<bar> \<le> 1 / 200"
proof -
  define n where "n = \<lfloor>x * 100 + 1 / 2\<rfloor>"
  have lo: "of_int n \<le> x * 100 + 1 / 2" unfolding n_def by linarith
  have hi: "x * 100 + 1 / 2 < of_int n + 1" unfolding n_def by linarith
  have eq: "toFixed 2 x = of_int n / 100"
  proof (cases "x = 0")
    case True
    then have "n = 0" by (simp add: n_def floor_eq_iff)
    with True show ?thesis by (simp add: toFixed_def)
  next
    case False
    with assms have "0 < x" by simp
    then show ?thesis by (simp add: toFixed_def n_def)
  qed
  show ?thesis
    unfolding eq using lo hi by linarith
qed

text \<open>
  Rounding to a double moves a value by at most half a unit in the last place, hence by
  at most \<open>2 ^ -53\<close> of its magnitude.
\<close>

lemma roundEven_error: "\<bar>of_int (roundEven r) - r\<bar> \<le> 1 / 2"
proof -
  define f where "f = \<lfloor>r\<rfloor>"
  have "of_int f \<le> r" "r < of_int f + 1"
    unfolding f_def by linarith+
  then show ?thesis
    unfolding roundEven_def Let_def f_def [symmetric]
    by (auto simp: abs_le_iff)
qed

lemma roundEven_nonneg: "0 \<le> r \<Longrightarrow> 0 \<le> roundEven r"
proof -
  assume "0 \<le> r"
  then have "0 \<le> \<lfloor>r\<rfloor>" by simp
  then show ?thesis
    unfolding roundEven_def Let_def by auto
qed

lemma ilog2_le:
  assumes "0 < x"
  shows "2 powi (ilog2 x) \<le> x"
proof -
  obtain p q where pq: "quotient_of x = (p, q)" by (cases "quotient_of x")
  then have q: "0 < q" and x: "x = of_int p / of_int q"
    by (simp_all add: quotient_of_denom_pos quotient_of_div)
  from assms q x have p: "0 < p"
    by (simp add: zero_less_divide_iff)
  define a where "a = bitlen p"
  define b where "b = bitlen q"
  from bitlen_bounds [OF p] have pa: "(2::int) ^ nat (a - 1) \<le> p"
    by (simp add: a_def)
  from bitlen_bounds [OF q] have qb: "q < (2::int) ^ nat b"
    by (simp add: b_def)
  from p have a1: "1 \<le> a"
    using bitlen_eq_zero_iff [of p] bitlen_nonneg [of p] by (simp add: a_def)
  have b0: "0 \<le> b" by (simp add: b_def bitlen_nonneg)
  have pa': "(2::rat) powi (a - 1) \<le> of_int p"
  proof -
    have "(of_int ((2::int) ^ nat (a - 1)) :: rat) \<le> of_int p"
      using pa by (simp only: of_int_le_iff)
    then show ?thesis using a1 by (simp add: power_int_def)
  qed
  have qb': "of_int q \<le> (2::rat) powi b"
  proof -
    have "(of_int q :: rat) \<le> of_int ((2::int) ^ nat b)"
      using qb by (simp only: of_int_le_iff less_imp_le)
    then show ?thesis using b0 by (simp add: power_int_def)
  qed
  have low: "(2::rat) powi (a - b - 1) \<le> x"
  proof -
    have "a - b - 1 = (a - 1) - b" by simp
    then have "(2::rat) powi (a - b - 1) = 2 powi (a - 1) / 2 powi b"
      by (simp only: power_int_diff [of "2::rat", simplified])
    also have "\<dots> \<le> of_int p / 2 powi b"
      using pa' by (simp add: divide_right_mono)
    also have "\<dots> \<le> of_int p / of_int q"
      using qb' p q by (intro divide_left_mono) (simp_all)
    finally show ?thesis by (simp add: x)
  qed
  show ?thesis
    using low by (simp add: ilog2_def pq Let_def a_def b_def)
qed

lemma ilog2_less:
  assumes "0 < x"
  shows "x < 2 powi (ilog2 x + 1)"
proof -
  obtain p q where pq: "quotient_of x = (p, q)" by (cases "quotient_of x")
  then have q: "0 < q" and x: "x = of_int p / of_int q"
    by (simp_all add: quotient_of_denom_pos quotient_of_div)
  from assms q x have p: "0 < p"
    by (simp add: zero_less_divide_iff)
  define a where "a = bitlen p"
  define b where "b = bitlen q"
  from bitlen_bounds [OF p] have pa: "p < (2::int) ^ nat a"
    by (simp add: a_def)
  from bitlen_bounds [OF q] have qb: "(2::int) ^ nat (b - 1) \<le> q"
    by (simp add: b_def)
  have a0: "0 \<le> a" by (simp add: a_def bitlen_nonneg)
  from q have b1: "1 \<le> b"
    using bitlen_eq_zero_iff [of q] bitlen_nonneg [of q] by (simp add: b_def)
  have pa': "of_int p < (2::rat) powi a"
  proof -
    have "(of_int p :: rat) < of_int ((2::int) ^ nat a)"
      using pa by (simp only: of_int_less_iff)
    then show ?thesis using a0 by (simp add: power_int_def)
  qed
  have qb': "(2::rat) powi (b - 1) \<le> of_int q"
  proof -
    have "(of_int ((2::int) ^ nat (b - 1)) :: rat) \<le> of_int q"
      using qb by (simp only: of_int_le_iff)
    then show ?thesis using b1 by (simp add: power_int_def)
  qed
  have up: "x < (2::rat) powi (a - b + 1)"
  proof -
    have "x = of_int p / of_int q" by (rule x)
    also have "\<dots> < 2 powi a / of_int q"
      using pa' q by (simp add: divide_strict_right_mono)
    also have "\<dots> \<le> 2 powi a / 2 powi (b - 1)"
      using qb' q by (intro divide_left_mono) (simp_all add: zero_less_mult_iff)
    also have "\<dots> = 2 powi (a - (b - 1))"
      by (simp only: power_int_diff [of "2::rat", simplified])
    finally show ?thesis by (simp add: algebra_simps)
  qed
  show ?thesis
  proof (cases "2 powi (a - b) \<le> x")
    case True
    with up show ?thesis by (simp add: ilog2_def pq Let_def a_def b_def)
  next
    case False
    then show ?thesis by (simp add: ilog2_def pq Let_def a_def b_def)
  qed
qed


lemma nearestDouble_error:
  assumes "0 \<le> x"
  shows "\<bar>nearestDouble x - x\<bar> \<le> x / 2 ^ 53"
proof (cases "x = 0")
  case True
  then show ?thesis by (simp add: nearestDouble_def)
next
  case False
  with assms have pos: "0 < x" by simp
  define s :: rat where "s = 2 powi (ilog2 x - 52)"
  define m :: rat where "m = of_int (roundEven (x / s))"
  have s: "0 < s" by (simp add: s_def)
  have nd: "nearestDouble x = m * s"
    using pos by (simp add: nearestDouble_def Let_def s_def m_def)
  have "\<bar>m - x / s\<bar> \<le> 1 / 2"
    unfolding m_def by (rule roundEven_error)
  then have "\<bar>m - x / s\<bar> * s \<le> 1 / 2 * s"
    using s by (intro mult_right_mono) simp_all
  moreover have "\<bar>m - x / s\<bar> * s = \<bar>m * s - x\<bar>"
  proof -
    have "\<bar>m - x / s\<bar> * s = \<bar>(m - x / s) * s\<bar>"
      using s by (simp add: abs_mult)
    also have "(m - x / s) * s = m * s - x"
      using s by (simp add: algebra_simps)
    finally show ?thesis .
  qed
  ultimately have e: "\<bar>m * s - x\<bar> \<le> s / 2" by simp
  have "s = 2 powi (ilog2 x) / 2 ^ 52"
    by (simp add: s_def power_int_diff)
  also have "\<dots> \<le> x / 2 ^ 52"
    using ilog2_le [OF pos] by (simp add: divide_right_mono)
  finally have "s / 2 \<le> x / 2 ^ 53" by simp
  with e show ?thesis by (simp add: nd)
qed

lemma nearestDouble_nonneg: "0 \<le> x \<Longrightarrow> 0 \<le> nearestDouble x"
  by (auto simp: nearestDouble_def Let_def roundEven_nonneg)

lemma nearestDouble_error_le:
  assumes "0 \<le> x" "x \<le> b"
  shows "\<bar>nearestDouble x - x\<bar> \<le> b / 2 ^ 53"
proof -
  have "x / 2 ^ 53 \<le> b / 2 ^ 53" using assms(2) by (simp add: divide_right_mono)
  with nearestDouble_error [OF assms(1)] show ?thesis by linarith
qed


lemma toFixed_nonneg: "0 \<le> x \<Longrightarrow> 0 \<le> toFixed d x"
proof -
  assume x: "0 \<le> x"
  then have "(0::rat) \<le> x * 10 ^ d + 1 / 2" by simp
  then have "0 \<le> \<lfloor>x * 10 ^ d + 1 / 2\<rfloor>" by simp
  then have "(0::rat) \<le> of_int \<lfloor>\<bar>x\<bar> * 10 ^ d + 1 / 2\<rfloor> / 10 ^ d"
    using x by simp
  with x show ?thesis
    by (simp add: toFixed_def zero_le_mult_iff sgn_if)
qed

text \<open>
  The error of a stored percentage: the quotient, its product with 100 and the parsed
  numeral are each rounded to a double, and \<^verbatim>\<open>toFixed(2)\<close> moves the value by at most
  half a hundredth.
\<close>

lemma percentage_error:
  fixes c t :: nat
  assumes "c \<le> t" "0 < t"
  shows "\<bar>parseFloat (toFixed 2 (fmul (fdiv (of_nat c) (of_nat t)) 100))
          - of_nat c / of_nat t * 100\<bar> \<le> 1 / 200 + 1 / 10 ^ 12"
proof -
  define u :: rat where "u = 1 / 2 ^ 53"
  have u: "0 \<le> u" "500 * u \<le> 1 / 1000000000000"
    by (simp_all add: u_def)
  define a :: rat where "a = of_nat c / of_nat t"
  define q where "q = fdiv (of_nat c) (of_nat t)"
  define x where "x = fmul q 100"
  define z where "z = toFixed 2 x"
  define p where "p = parseFloat z"
  have a: "0 \<le> a" "a \<le> 1"
    using assms by (simp_all add: a_def)
  have q: "\<bar>q - a\<bar> \<le> u" "0 \<le> q"
    using nearestDouble_error_le [OF a] nearestDouble_nonneg [OF a(1)]
    by (simp_all add: q_def fdiv_def a_def u_def)
  have q100: "0 \<le> q * 100" "q * 100 \<le> 200"
    using q a u by linarith+
  have x: "\<bar>x - q * 100\<bar> \<le> 200 * u" "0 \<le> x"
    using nearestDouble_error_le [OF q100] nearestDouble_nonneg [OF q100(1)]
    by (simp_all add: x_def fmul_def u_def)
  have z: "\<bar>z - x\<bar> \<le> 1 / 200" "0 \<le> z"
    using toFixed_error [OF x(2)] toFixed_nonneg [OF x(2)] by (simp_all add: z_def)
  have "z \<le> 200"
    using z(1) x(1) q(1) a(2) u by linarith
  with z(2) have p: "\<bar>p - z\<bar> \<le> 200 * u"
    using nearestDouble_error_le [of z 200] by (simp add: p_def parseFloat_def u_def)
  have "\<bar>p - a * 100\<bar> \<le> 1 / 200 + 1 / 1000000000000"
    using p z(1) x(1) q(1) u by linarith
  then show ?thesis
    by (simp add: p_def z_def x_def q_def a_def)
qed

lemma percentages_sum:
  fixes a b c t :: nat
  assumes "a + b + c = t" "0 < t"
  shows "\<bar>parseFloat (toFixed 2 (fmul (fdiv (of_nat a) (of_nat t)) 100))
          + parseFloat (toFixed 2 (fmul (fdiv (of_nat b) (of_nat t)) 100))
          + parseFloat (toFixed 2 (fmul (fdiv (of_nat c) (of_nat t)) 100)) - 100\<bar> \<le> 1 / 10"
proof -
  let ?x = "of_nat a / of_nat t * (100::rat)"
  let ?y = "of_nat b / of_nat t * (100::rat)"
  let ?z = "of_nat c / of_nat t * (100::rat)"
  have "?x + ?y + ?z = of_nat (a + b + c) / of_nat t * 100"
    by (simp add: add_divide_distrib distrib_right)
  also have "\<dots> = 100" using assms by simp
  finally have s: "?x + ?y + ?z = 100" .
  from assms have le: "a \<le> t" "b \<le> t" "c \<le> t" by simp_all
  have n: "(1::rat) / 200 + 1 / 10 ^ 12 \<le> 1 / 100" by simp
  note e = percentage_error [OF le(1) assms(2)] percentage_error [OF le(2) assms(2)]
    percentage_error [OF le(3) assms(2)]
  from e s n show ?thesis by linarith
qed

text \<open>
  Claim C5. The breakdown that the upload handler stores, for every input (a file that
  cannot be read included): the three counts add up to the total, the total is positive,
  each percentage is the double that the handler computes (the count divided by the
  total, times 100, put through \<^verbatim>\<open>toFixed(2)\<close> and \<^verbatim>\<open>parseFloat\<close>), it differs
  from the exact percentage by half a hundredth at most, up to the rounding of the
  doubles, and the three percentages add up to 100 within 0.1.
\<close>

theorem breakdown_consistent:
  "conformes (uploadCalidad inp) + hallazgosMenores (uploadCalidad inp)
     + noAdmitidas (uploadCalidad inp) = total' (uploadCalidad inp)
   \<and> 0 < total' (uploadCalidad inp)
   \<and> porcentajeConformes (uploadCalidad inp)
       = parseFloat (toFixed 2 (fmul (fdiv (of_nat (conformes (uploadCalidad inp)))
                                        (of_nat (total' (uploadCalidad inp)))) 100))
   \<and> porcentajeHallazgos (uploadCalidad inp)
       = parseFloat (toFixed 2 (fmul (fdiv (of_nat (hallazgosMenores (uploadCalidad inp)))
                                        (of_nat (total' (uploadCalidad inp)))) 100))
   \<and> porcentajeNoAdmitida (uploadCalidad inp)
       = parseFloat (toFixed 2 (fmul (fdiv (of_nat (noAdmitidas (uploadCalidad inp)))
                                        (of_nat (total' (uploadCalidad inp)))) 100))
   \<and> \<bar>porcentajeConformes (uploadCalidad inp)
        - of_nat (conformes (uploadCalidad inp)) / of_nat (total' (uploadCalidad inp)) * 100\<bar>
       \<le> 1 / 200 + 1 / 10 ^ 12
   \<and> \<bar>porcentajeHallazgos (uploadCalidad inp)
        - of_nat (hallazgosMenores (uploadCalidad inp)) / of_nat (total' (uploadCalidad inp)) * 100\<bar>
       \<le> 1 / 200 + 1 / 10 ^ 12
   \<and> \<bar>porcentajeNoAdmitida (uploadCalidad inp)
        - of_nat (noAdmitidas (uploadCalidad inp)) / of_nat (total' (uploadCalidad inp)) * 100\<bar>
       \<le> 1 / 200 + 1 / 10 ^ 12
   \<and> \<bar>porcentajeConformes (uploadCalidad inp) + porcentajeHallazgos (uploadCalidad inp)
        + porcentajeNoAdmitida (uploadCalidad inp) - 100\<bar> \<le> 1 / 10"
proof -
  let ?c = "uploadCounters inp"
  note s = uploadCounters_sum [of inp]
  note t = uploadCounters_pos [of inp]
  from s have le: "frutasConformes ?c \<le> totalFrutas ?c" "frutasConHallazgos ?c \<le> totalFrutas ?c"
    "frutasNoAdmitidas ?c \<le> totalFrutas ?c" by simp_all
  show ?thesis
    using s t percentages_sum [OF s t] percentage_error [OF le(1) t]
      percentage_error [OF le(2) t] percentage_error [OF le(3) t]
    by (simp add: uploadCalidad_def calidadOf_def)
qed

lemma stored_percentages:
  "parseFloat (toFixed 2 (fmul (fdiv 1 1) 100)) = 100"
  "parseFloat (toFixed 2 (fmul (fdiv 0 1) 100)) = 0"
  by code_simp+

text \<open>
  Values that lie halfway between two decimals: 23 of 160 is 14.375 and 3001 of 20000
  is 15.005 exactly, and the mean of 30.9 and 31 is 30.95; the doubles computed are just
  below, and so are the numerals of \<^verbatim>\<open>toFixed\<close>.
\<close>

lemma halfway_percentages:
  "toFixed 2 (fmul (fdiv 23 160) 100) = 1437 / 100"
  "toFixed 2 (fmul (fdiv 3001 20000) 100) = 15"
  "toFixed 1 (fdiv (fadd (fadd 0 (parseFloat (309 / 10))) 31) 2) = 309 / 10"
  by code_simp+

text \<open>
  Claim C6. The total that the loop counts is the number of counted rows. When a file has
  no counted row, and when the file cannot be read, the stored breakdown is one synthetic
  conformant unit: total 1, conformant 1, no minor finding, none not admitted, 100 percent
  conformant. No division by zero occurs, the total being 1.
\<close>

theorem empty_input_default:
  "uploadCalidad None
     = \<lparr>total' = 1, conformes = 1, hallazgosMenores = 0, noAdmitidas = 0,
        porcentajeNoAdmitida = 0, porcentajeConformes = 100, porcentajeHallazgos = 0\<rparr>
   \<and> totalFrutas (countCsv csv) = length (countedRows csv)
   \<and> (countedRows csv = [] \<longrightarrow>
        uploadCalidad (Some csv)
        = \<lparr>total' = 1, conformes = 1, hallazgosMenores = 0, noAdmitidas = 0,
           porcentajeNoAdmitida = 0, porcentajeConformes = 100, porcentajeHallazgos = 0\<rparr>)"
  by (simp add: uploadCalidad_def calidadOf_def uploadCounters_def orDefault_def countCsv_eq
      unitStatuses_def stored_percentages)

text \<open>
  A file with a header of two columns and one line of a single column: no row is counted.
\<close>

theorem empty_input_default_witness:
  "countedRows headerOnlyCsv = []
   \<and> uploadCalidad (Some headerOnlyCsv)
        = \<lparr>total' = 1, conformes = 1, hallazgosMenores = 0, noAdmitidas = 0,
           porcentajeNoAdmitida = 0, porcentajeConformes = 100, porcentajeHallazgos = 0\<rparr>"
proof -
  have "countedRows headerOnlyCsv = []" by code_simp
  with empty_input_default [of headerOnlyCsv] show ?thesis by blast
qed


text \<open>
  Claim C4. The counters of the loop are the numbers of units by category: the total is
  the number of counted rows, and each row is counted in exactly one of the three others,
  by its status. The three categories partition the statuses; ALERTA and HALLAZGO are the
  minor findings, DESCARTE, NO_ADMITIDA and RECHAZADO are not admitted, and every other
  status, OK and CONFORME among them, is conformant. The status of a row is its
  \<^verbatim>\<open>CALIDAD_STATUS\<close> field, trimmed and in upper case, so that two fields that differ
  in the case of their letters only have the same status.
\<close>

theorem units_classified:
  "countCsv csv =
     \<lparr>totalFrutas = length (unitStatuses csv),
      frutasConformes = length (filter isConforme (unitStatuses csv)),
      frutasConHallazgos = length (filter isHallazgo (unitStatuses csv)),
      frutasNoAdmitidas = length (filter isNoAdmitida (unitStatuses csv))\<rparr>
   \<and> isConforme st = (\<not> isHallazgo st \<and> \<not> isNoAdmitida st)
   \<and> \<not> (isHallazgo st \<and> isNoAdmitida st)
   \<and> isConforme ''OK'' \<and> isConforme ''CONFORME''
   \<and> isHallazgo st = (st = ''ALERTA'' \<or> st = ''HALLAZGO'')
   \<and> isNoAdmitida st = (st = ''DESCARTE'' \<or> st = ''NO_ADMITIDA'' \<or> st = ''RECHAZADO'')
   \<and> (0 \<le> si \<longrightarrow> rowStatus si values = toUpperCase (trim (values ! nat si)))
   \<and> (toUpperCase a = toUpperCase b \<longrightarrow> toUpperCase (trim a) = toUpperCase (trim b))"
proof (intro conjI impI)
  show "countCsv csv =
     \<lparr>totalFrutas = length (unitStatuses csv),
      frutasConformes = length (filter isConforme (unitStatuses csv)),
      frutasConHallazgos = length (filter isHallazgo (unitStatuses csv)),
      frutasNoAdmitidas = length (filter isNoAdmitida (unitStatuses csv))\<rparr>"
    by (rule countCsv_eq)
  show "isConforme st = (\<not> isHallazgo st \<and> \<not> isNoAdmitida st)"
    by (rule status_partition)
  show "\<not> (isHallazgo st \<and> isNoAdmitida st)"
    by (rule status_partition)
  show "isConforme ''OK''" "isConforme ''CONFORME''"
    by (simp_all add: isConforme_def)
  show "isHallazgo st = (st = ''ALERTA'' \<or> st = ''HALLAZGO'')"
    by (simp add: isHallazgo_def)
  show "isNoAdmitida st = (st = ''DESCARTE'' \<or> st = ''NO_ADMITIDA'' \<or> st = ''RECHAZADO'')"
    by (simp add: isNoAdmitida_def)
  show "rowStatus si values = toUpperCase (trim (values ! nat si))" if "0 \<le> si"
    using that by (simp add: rowStatus_def)
  show "toUpperCase (trim a) = toUpperCase (trim b)" if "toUpperCase a = toUpperCase b"
    using that by (simp add: toUpperCase_trim)
qed

text \<open>
  A file of six lines: statuses in lower and mixed case, an unknown status, a line that
  is too short (not counted) and a line with a column more.
\<close>

theorem units_classified_witness:
  "toUpperCase ''Descarte '' = toUpperCase ''dESCARTE ''
   \<and> toUpperCase (trim ''Descarte '') = ''DESCARTE''
   \<and> toUpperCase (trim ''dESCARTE '') = ''DESCARTE''
   \<and> rowStatus 1 [''L3'', ''Descarte ''] = ''DESCARTE''
   \<and> unitStatuses sampleCsv = [''OK'', ''ALERTA'', ''DESCARTE'', ''MADURA'', ''RECHAZADO'']
   \<and> countCsv sampleCsv = \<lparr>totalFrutas = 5, frutasConformes = 2, frutasConHallazgos = 1,
        frutasNoAdmitidas = 2\<rparr>"
proof -
  have a: "toUpperCase ''Descarte '' = toUpperCase ''dESCARTE ''"
    by (simp add: toUpperCase_def toUpperChar_def)
  have b: "toUpperCase (trim ''Descarte '') = ''DESCARTE''"
    by (simp add: toUpperCase_def toUpperChar_def trim_def isWhiteSpace_def)
  have c: "(0::int) \<le> 1" by simp
  have d: "unitStatuses sampleCsv = [''OK'', ''ALERTA'', ''DESCARTE'', ''MADURA'', ''RECHAZADO'']"
    by code_simp
  have e: "isConforme ''OK''" "isHallazgo ''ALERTA''" "isNoAdmitida ''DESCARTE''"
    "isConforme ''MADURA''" "isNoAdmitida ''RECHAZADO''"
    "\<not> isHallazgo ''OK''" "\<not> isNoAdmitida ''OK''" "\<not> isConforme ''ALERTA''"
    "\<not> isNoAdmitida ''ALERTA''" "\<not> isConforme ''DESCARTE''" "\<not> isHallazgo ''DESCARTE''"
    "\<not> isHallazgo ''MADURA''" "\<not> isNoAdmitida ''MADURA''" "\<not> isConforme ''RECHAZADO''"
    "\<not> isHallazgo ''RECHAZADO''"
    by (simp_all add: isConforme_def isHallazgo_def isNoAdmitida_def)
  note t = units_classified [of sampleCsv _ 1 "[''L3'', ''Descarte '']" "''Descarte ''" "''dESCARTE ''"]
  from t a b have "toUpperCase (trim ''dESCARTE '') = ''DESCARTE''" by simp
  moreover from t c b have "rowStatus 1 [''L3'', ''Descarte ''] = ''DESCARTE''" by simp
  moreover from t have "countCsv sampleCsv = \<lparr>totalFrutas = 5, frutasConformes = 2,
      frutasConHallazgos = 1, frutasNoAdmitidas = 2\<rparr>"
    unfolding d by (simp add: e)
  ultimately show ?thesis using a b d by blast
qed

text \<open>
  Claim C7. The status of a record of the history: Pendiente without classifier output;
  otherwise Descarte when more than 15 percent are not admitted, else Hallazgo when the
  percentage not admitted or the percentage of minor findings is positive, else Conforme.
  It depends on the classifier output alone: two records with the same output have the
  same status, whatever their \<open>simResult\<close>.
\<close>

theorem status_from_classifier:
  "(calidadFruta r = None \<longrightarrow> determineBatchStatus r = ''Pendiente'')
   \<and> (calidadFruta r = Some q \<and> porcentajeNoAdmitida q > 15
        \<longrightarrow> determineBatchStatus r = ''Descarte'')
   \<and> (calidadFruta r = Some q \<and> \<not> porcentajeNoAdmitida q > 15
        \<and> (porcentajeNoAdmitida q > 0 \<or> porcentajeHallazgos q > 0)
        \<longrightarrow> determineBatchStatus r = ''Hallazgo'')
   \<and> (calidadFruta r = Some q \<and> \<not> porcentajeNoAdmitida q > 15
        \<and> \<not> (porcentajeNoAdmitida q > 0 \<or> porcentajeHallazgos q > 0)
        \<longrightarrow> determineBatchStatus r = ''Conforme'')
   \<and> (calidadFruta r = calidadFruta r' \<longrightarrow> determineBatchStatus r = determineBatchStatus r')
   \<and> determineBatchStatus (r\<lparr>simResult := v\<rparr>) = determineBatchStatus r"
  by (auto simp: determineBatchStatus_def)

text \<open>
  One record for each status, 15 percent not admitted being a finding still, and a
  conformant record whose \<open>simResult\<close> says otherwise.
\<close>

theorem status_from_classifier_witness:
  "determineBatchStatus (pendingLot 0) = ''Pendiente''
   \<and> porcentajeNoAdmitida (calidadOf \<lparr>totalFrutas = 100, frutasConformes = 80,
         frutasConHallazgos = 0, frutasNoAdmitidas = 20\<rparr>) = 20
   \<and> determineBatchStatus (auditedLot 0 80 0 20) = ''Descarte''
   \<and> determineBatchStatus (auditedLot 0 85 0 15) = ''Hallazgo''
   \<and> determineBatchStatus (auditedLot 0 95 5 0) = ''Hallazgo''
   \<and> determineBatchStatus (auditedLot 0 100 0 0) = ''Conforme''
   \<and> determineBatchStatus ((auditedLot 0 100 0 0)\<lparr>simResult := Some ''Descarte''\<rparr>) = ''Conforme''"
proof -
  let ?q = "\<lambda>c h n. calidadOf \<lparr>totalFrutas = c + h + n, frutasConformes = c,
                                  frutasConHallazgos = h, frutasNoAdmitidas = n\<rparr>"
  have p: "porcentajeNoAdmitida (?q 80 0 20) = 20" "porcentajeNoAdmitida (?q 85 0 15) = 15"
    "porcentajeNoAdmitida (?q 95 5 0) = 0" "porcentajeHallazgos (?q 95 5 0) = 5"
    "porcentajeNoAdmitida (?q 100 0 0) = 0" "porcentajeHallazgos (?q 100 0 0) = 0"
    by code_simp+
  have c: "calidadFruta (pendingLot 0) = None"
    "calidadFruta (auditedLot 0 80 0 20) = Some (?q 80 0 20)"
    "calidadFruta (auditedLot 0 85 0 15) = Some (?q 85 0 15)"
    "calidadFruta (auditedLot 0 95 5 0) = Some (?q 95 5 0)"
    "calidadFruta (auditedLot 0 100 0 0) = Some (?q 100 0 0)"
    by (simp_all add: pendingLot_def auditedLot_def)
  have "determineBatchStatus (pendingLot 0) = ''Pendiente''"
    using status_from_classifier [of "pendingLot 0"] c(1) by blast
  moreover have "determineBatchStatus (auditedLot 0 80 0 20) = ''Descarte''"
    using status_from_classifier [of "auditedLot 0 80 0 20" "?q 80 0 20"] c(2) p(1) by simp
  moreover have "determineBatchStatus (auditedLot 0 85 0 15) = ''Hallazgo''"
    using status_from_classifier [of "auditedLot 0 85 0 15" "?q 85 0 15"] c(3) p(2) by simp
  moreover have "determineBatchStatus (auditedLot 0 95 5 0) = ''Hallazgo''"
    using status_from_classifier [of "auditedLot 0 95 5 0" "?q 95 5 0"] c(4) p(3,4) by simp
  moreover have "determineBatchStatus (auditedLot 0 100 0 0) = ''Conforme''"
    using status_from_classifier [of "auditedLot 0 100 0 0" "?q 100 0 0"] c(5) p(5,6) by simp
  moreover have "determineBatchStatus ((auditedLot 0 100 0 0)\<lparr>simResult := Some ''Descarte''\<rparr>)
                 = determineBatchStatus (auditedLot 0 100 0 0)"
    using status_from_classifier [of "auditedLot 0 100 0 0"] by blast
  ultimately show ?thesis using p(1) by simp
qed

text \<open>
  Claim C9, as the code has it. For an empty collection \<^verbatim>\<open>processData\<close> returns 0
  audits, 0 rejected lots, an average conformity of 0, an empty trend and an empty
  breakdown: no label and no count. Nothing is divided.
\<close>

theorem empty_history_summary:
  "processData tz [] fltr =
     \<lparr>kpis = \<lparr>conformidad = 0, rechazados = 0, tiempo = ''N/A'', completadas = 0\<rparr>,
      charts = \<lparr>trend = \<lparr>labels = [], data = []\<rparr>,
                breakdown = \<lparr>labels = [], data = []\<rparr>\<rparr>\<rparr>"
  by (simp add: processData_def)

text \<open>
  Claim C9 as stated fails: the breakdown of the empty collection has no counts, where
  the claim has three counts of zero.
\<close>

theorem empty_history_breakdown_empty:
  "data (breakdown (charts (processData utc [] ''Global''))) = []
   \<and> data (breakdown (charts (processData utc [] ''Global''))) \<noteq> [0, 0, 0]
   \<and> labels (breakdown (charts (processData utc [] ''Global''))) = []"
  by (simp add: processData_def)



lemma firstOccurrences_snoc:
  "firstOccurrences (ks @ [k]) =
     (if k \<in> set ks then firstOccurrences ks else firstOccurrences ks @ [k])"
  by (simp add: firstOccurrences_def)

lemma set_firstOccurrences: "set (firstOccurrences ks) = set ks"
  by (simp add: firstOccurrences_def)

lemma distinct_firstOccurrences: "distinct (firstOccurrences ks)"
  by (simp add: firstOccurrences_def)

lemma bucketEntry_snoc:
  "bucketEntry tz (rs @ [r]) k =
     (if lotKey tz r = k
      then \<lparr>sum' = fadd (sum' (bucketEntry tz rs k)) (conformityOf r),
            count = count (bucketEntry tz rs k) + 1\<rparr>
      else bucketEntry tz rs k)"
  by (simp add: bucketEntry_def bucket_def)

lemma bucketEntry_absent:
  "k \<notin> lotKey tz ` set rs \<Longrightarrow> bucketEntry tz rs k = \<lparr>sum' = 0, count = 0\<rparr>"
proof -
  assume "k \<notin> lotKey tz ` set rs"
  then have "filter (\<lambda>r. lotKey tz r = k) rs = []"
    by (auto simp: filter_empty_conv)
  then show ?thesis by (simp add: bucketEntry_def bucket_def)
qed

lemma map_of_keyed:
  "map_of (map (\<lambda>k. (k, f k)) ks) k = (if k \<in> set ks then Some (f k) else None)"
  by (induction ks) auto

lemma trendStep_keyed:
  "trendStep tz (map (\<lambda>k. (k, bucketEntry tz rs k)) (firstOccurrences (map (lotKey tz) rs))) r
   = map (\<lambda>k. (k, bucketEntry tz (rs @ [r]) k)) (firstOccurrences (map (lotKey tz) (rs @ [r])))"
proof (cases "lotKey tz r \<in> lotKey tz ` set rs")
  case True
  then show ?thesis
    by (simp add: trendStep_def Let_def map_of_keyed set_firstOccurrences
        firstOccurrences_snoc bucketEntry_snoc lotKey_def [symmetric] comp_def)
next
  case False
  then have "lotKey tz r \<notin> set (firstOccurrences (map (lotKey tz) rs))"
    by (simp add: set_firstOccurrences)
  then have "\<forall>k\<in>set (firstOccurrences (map (lotKey tz) rs)). k \<noteq> lotKey tz r"
    by blast
  with False show ?thesis
    by (simp add: trendStep_def Let_def map_of_keyed set_firstOccurrences
        firstOccurrences_snoc bucketEntry_snoc lotKey_def [symmetric] comp_def
        bucketEntry_absent cong: map_cong)
       metis
qed

lemma trendMap_keyed:
  "trendMap tz rs
   = map (\<lambda>k. (k, bucketEntry tz rs k)) (firstOccurrences (map (lotKey tz) rs))"
proof (induction rs rule: rev_induct)
  case Nil
  then show ?case by (simp add: trendMap_def firstOccurrences_def)
next
  case (snoc r rs)
  have "trendMap tz (rs @ [r]) = trendStep tz (trendMap tz rs) r"
    by (simp add: trendMap_def)
  then show ?case
    unfolding snoc.IH by (simp only: trendStep_keyed)
qed


lemma bucket_sort_key: "bucket tz (sort_key date rs) k = sort_key date (bucket tz rs k)"
  by (simp add: bucket_def filter_sort)

lemma earliest_sort_key: "earliest tz (sort_key date rs) k = earliest tz rs k"
  by (simp add: earliest_def bucket_sort_key)

lemma remdups_snoc:
  "remdups (xs @ [k]) = filter (\<lambda>x. x \<noteq> k) (remdups xs) @ [k]"
  by (induction xs) auto

lemma firstOccurrences_Cons:
  "firstOccurrences (k # ks) = k # filter (\<lambda>x. x \<noteq> k) (firstOccurrences ks)"
proof -
  have "remdups (rev ks @ [k]) = filter (\<lambda>x. x \<noteq> k) (remdups (rev ks)) @ [k]"
    by (rule remdups_snoc)
  then show ?thesis
    by (simp add: firstOccurrences_def rev_filter)
qed

lemma bucket_Cons_other:
  "k \<noteq> lotKey tz r \<Longrightarrow> bucket tz (r # rs) k = bucket tz rs k"
  by (auto simp: bucket_def)

lemma earliest_in:
  assumes "k \<in> lotKey tz ` set rs"
  shows "\<exists>r\<in>set rs. lotKey tz r = k \<and> earliest tz rs k = date r"
proof -
  from assms obtain r where "r \<in> set rs" "lotKey tz r = k" by blast
  then have "r \<in> set (bucket tz rs k)" by (simp add: bucket_def)
  then have ne: "date ` set (bucket tz rs k) \<noteq> {}" by auto
  have "Min (date ` set (bucket tz rs k)) \<in> date ` set (bucket tz rs k)"
    using ne by (intro Min_in) auto
  then show ?thesis
    by (auto simp: earliest_def bucket_def)
qed

lemma earliest_le:
  "r \<in> set rs \<Longrightarrow> earliest tz rs (lotKey tz r) \<le> date r"
  by (simp add: earliest_def bucket_def)

lemma earliest_sorted:
  "sorted (map date rs) \<Longrightarrow>
   sorted_wrt (<) (map (earliest tz rs) (firstOccurrences (map (lotKey tz) rs)))"
proof (induction rs)
  case Nil
  then show ?case by (simp add: firstOccurrences_def)
next
  case (Cons r rs)
  let ?F = "firstOccurrences (map (lotKey tz) rs)"
  let ?G = "filter (\<lambda>x. x \<noteq> lotKey tz r) ?F"
  from Cons.prems have le: "\<forall>r'\<in>set rs. date r \<le> date r'" and srt: "sorted (map date rs)"
    by simp_all
  have same: "map (earliest tz (r # rs)) ?G = map (earliest tz rs) ?G"
    by (rule map_cong) (simp_all add: earliest_def bucket_Cons_other)
  have "sorted_wrt (\<lambda>x y. earliest tz rs x < earliest tz rs y) ?F"
    using Cons.IH [OF srt] by (simp add: sorted_wrt_map)
  then have tl: "sorted_wrt (<) (map (earliest tz rs) ?G)"
    by (simp add: sorted_wrt_map sorted_wrt_filter)
  have hd: "earliest tz (r # rs) (lotKey tz r) < earliest tz rs k" if "k \<in> set ?G" for k
  proof -
    from that have k: "k \<in> lotKey tz ` set rs" "k \<noteq> lotKey tz r"
      by (simp_all add: set_firstOccurrences)
    from earliest_in [OF k(1)] obtain r' where r': "r' \<in> set rs" "lotKey tz r' = k"
      "earliest tz rs k = date r'" by blast
    from r'(2) k(2) have "date r' \<noteq> date r" by (auto simp: lotKey_def)
    with le r'(1) have "date r < date r'" by fastforce
    moreover have "earliest tz (r # rs) (lotKey tz r) \<le> date r"
      by (rule earliest_le) simp
    ultimately show ?thesis by (simp add: r'(3))
  qed
  show ?case
    unfolding list.map firstOccurrences_Cons same
    using tl hd by (simp add: same)
qed

lemma sorted_sort_key_date: "sorted (map date (sort_key date rs))"
  by (rule sorted_sort_key)


text \<open>
  What \<^verbatim>\<open>processData\<close> does for a non-empty collection. The labels of the trend are
  the keys of the lots, each once, in the order of their first occurrence among the lots
  sorted by timestamp; the value of a label is the one of the entry built from the lots
  with that key, taken in that order; two lots of the same calendar day have the same
  key; the labels are in ascending order of the earliest timestamp among their lots.
\<close>

lemma trend_structure:
  assumes "rs \<noteq> []"
  shows "labels (trend (charts (processData tz rs fltr)))
           = firstOccurrences (map (lotKey tz) (sort_key date rs))"
    and "distinct (labels (trend (charts (processData tz rs fltr))))"
    and "set (labels (trend (charts (processData tz rs fltr)))) = lotKey tz ` set rs"
    and "data (trend (charts (processData tz rs fltr)))
           = map (bucketValue tz (sort_key date rs)) (labels (trend (charts (processData tz rs fltr))))"
    and "sorted_wrt (<) (map (earliest tz rs) (labels (trend (charts (processData tz rs fltr)))))"
proof -
  let ?S = "sort_key date rs"
  let ?F = "firstOccurrences (map (lotKey tz) ?S)"
  have tm: "trendMap tz ?S = map (\<lambda>k. (k, bucketEntry tz ?S k)) ?F"
    by (rule trendMap_keyed)
  from assms show lab: "labels (trend (charts (processData tz rs fltr))) = ?F"
    by (simp add: processData_def Let_def tm comp_def)
  show "distinct (labels (trend (charts (processData tz rs fltr))))"
    unfolding lab by (rule distinct_firstOccurrences)
  show "set (labels (trend (charts (processData tz rs fltr)))) = lotKey tz ` set rs"
    unfolding lab by (simp add: set_firstOccurrences)
  from assms show "data (trend (charts (processData tz rs fltr)))
       = map (bucketValue tz ?S) (labels (trend (charts (processData tz rs fltr))))"
    unfolding lab
    by (simp add: processData_def Let_def tm comp_def bucketValue_def)
  show "sorted_wrt (<) (map (earliest tz rs) (labels (trend (charts (processData tz rs fltr)))))"
    unfolding lab
    using earliest_sorted [OF sorted_sort_key_date, of tz rs]
    by (simp add: earliest_sort_key cong: map_cong)
qed

lemma same_day_same_key:
  "calendarDay tz (date r1) = calendarDay tz (date r2) \<Longrightarrow> lotKey tz r1 = lotKey tz r2"
  by (simp add: lotKey_def dayKey_def)

text \<open>
  Claim C8 fails on the code. The key of a bucket is the day of the month and the month,
  without the year, where the comments of the source say \<^verbatim>\<open>Group by Day\<close> and
  \<^verbatim>\<open>Sort by date ascending for the trend line\<close>. Of three lots of 5 November 2025,
  1 January 2025 and 5 November 2024 (three calendar days), the first and the last share
  the bucket of 5 November, whose value is the mean of both (80 and 60); that bucket
  comes before the one of 1 January 2025, although one of its lots is ten months later.
\<close>

theorem trend_merges_years:
  "calendarDay utc (date (threeLots ! 0)) = (2025, 11, 5)
   \<and> calendarDay utc (date (threeLots ! 1)) = (2025, 1, 1)
   \<and> calendarDay utc (date (threeLots ! 2)) = (2024, 11, 5)
   \<and> map conformityOf threeLots = [60, 100, 80]
   \<and> trend (charts (processData utc threeLots ''Global''))
       = \<lparr>labels = [(5, 11), (1, 1)], data = [70, 100]\<rparr>"
  by code_simp


end
